theory Spec2Isabelle
  imports Complex_Main "HOL-Library.AList" "HOL-Library.Multiset"
begin

section \<open>Python values\<close>

text \<open>
  A Python float is a real number (a finite value: nothing below speaks about infinities or
  NaN). The products, quotients and powers of the scoring stages are taken exactly; the sums
  that the two readers of the population file accumulate with \<open>+=\<close> are rounded as
  binary64 addition rounds them (\<open>float_add\<close>), since the order of the rows decides how
  they round. Python ints are \<open>int\<close>. A \<open>dict\<close> is an association list with distinct
  keys in insertion order: \<open>map_of\<close> is the lookup and \<open>AList.update\<close> the assignment
  \<open>d[k] = v\<close> (in place for a known key, appended for a new one).
\<close>

datatype error = ValueError | KeyError | TypeError | AttributeError

text \<open>
  Binary64 addition: the exact sum rounded to the nearest float, ties to the even significand.
  \<open>binary_exponent\<close> finds the \<open>e\<close> with \<open>2 ^ e \<le> a < 2 ^ (e + 1)\<close> by halving or
  doubling (the fuel 2200 covers every exponent of the format); the spacing of the floats
  around the sum is \<open>2 ^ (e - 52)\<close>, and \<open>2 ^ (-1074)\<close> for a subnormal one. Sums are taken
  below the overflow threshold.
\<close>

fun binary_exponent :: "nat \<Rightarrow> real \<Rightarrow> int \<Rightarrow> int" where
  "binary_exponent fuel a e =
     (if fuel = 0 then e
      else if a < 1 then binary_exponent (fuel - 1) (2 * a) (e - 1)
      else if 2 \<le> a then binary_exponent (fuel - 1) (a / 2) (e + 1)
      else e)"

declare binary_exponent.simps [simp del]

definition pow2 :: "int \<Rightarrow> real" where
  "pow2 k = (if 0 \<le> k then 2 ^ nat k else 1 / 2 ^ nat (- k))"

text \<open>The nearest integer, a tie going to the even one.\<close>

definition round_half_even :: "real \<Rightarrow> int" where
  "round_half_even x =
     (let f = floor x; d = x - of_int f
      in if d < 1 / 2 then f else if d > 1 / 2 then f + 1 else if even f then f else f + 1)"

definition double_round :: "real \<Rightarrow> real" where
  "double_round x =
     (if x = 0 then 0
      else let e = binary_exponent 2200 \<bar>x\<bar> 0;
               q = pow2 (max e (- 1022) - 52)
           in sgn x * of_int (round_half_even (\<bar>x\<bar> / q)) * q)"

definition float_add :: "real \<Rightarrow> real \<Rightarrow> real" where
  "float_add a b = double_round (a + b)"

text \<open>\<open>round(x)\<close> is \<open>round_half_even x\<close>; \<open>round(x, nd)\<close> rounds half to even at \<open>nd\<close>
  decimals.\<close>

definition py_round :: "real \<Rightarrow> nat \<Rightarrow> real" where
  "py_round x nd = of_int (round_half_even (x * 10 ^ nd)) / 10 ^ nd"

section \<open>process_school_data.py: assemble_risk_data\<close>

text \<open>
  The body of the innermost loops of \<open>assemble_risk_data\<close>, for one county, one scenario key
  and one year. A school is the dict built by \<open>filter_tps_schools\<close>; only its
  \<open>enrollment\<close> is read here (\<open>fips\<close>, a \<open>str\<close>, is the list of its code points).
\<close>

record school =
  fips :: "nat list"
  enrollment :: real

text \<open>\<open>demo_ratio = proj_sa / base_sa if base_sa > 0 else 1.0\<close>\<close>

definition demo_ratio :: "real \<Rightarrow> real \<Rightarrow> real" where
  "demo_ratio proj_sa base_sa = (if base_sa > 0 then proj_sa / base_sa else 1)"

text \<open>\<open>tps_mult = tps_multipliers[scenario].get(yr, 1.0)\<close>\<close>

definition tps_mult :: "(string \<times> (int \<times> real) list) list \<Rightarrow> string \<Rightarrow> int \<Rightarrow> error + real" where
  "tps_mult tps_multipliers scenario yr =
     (case map_of tps_multipliers scenario of
        None \<Rightarrow> Inl KeyError
      | Some m \<Rightarrow> Inr (case map_of m yr of None \<Rightarrow> 1 | Some v \<Rightarrow> v))"

text \<open>\<open>combined_ratio = demo_ratio * tps_mult\<close>: both factors are surviving fractions.\<close>

definition combined_ratio :: "real \<Rightarrow> real \<Rightarrow> real" where
  "combined_ratio demo tps = demo * tps"

text \<open>\<open>decline_pct = (1 - combined_ratio) * 100\<close>, computed inside the school loop.\<close>

definition decline_pct :: "real \<Rightarrow> real" where
  "decline_pct ratio = (1 - ratio) * 100"

record tally =
  projected_enrollment :: real
  green :: int
  yellow :: int
  orange :: int
  red :: int
  below_threshold :: int

definition tally0 :: tally where
  "tally0 = \<lparr>projected_enrollment = 0, green = 0, yellow = 0, orange = 0, red = 0,
             below_threshold = 0\<rparr>"

text \<open>One iteration of \<open>for s in school_list\<close>.\<close>

definition school_step :: "real \<Rightarrow> school \<Rightarrow> tally \<Rightarrow> tally" where
  "school_step ratio s t =
     (let proj_enroll = enrollment s * ratio;
          t1 = t\<lparr>projected_enrollment := projected_enrollment t + proj_enroll\<rparr>;
          d = decline_pct ratio;
          t2 = (if d < 10 then t1\<lparr>green := green t1 + 1\<rparr>
                else if d < 25 then t1\<lparr>yellow := yellow t1 + 1\<rparr>
                else if d < 50 then t1\<lparr>orange := orange t1 + 1\<rparr>
                else t1\<lparr>red := red t1 + 1\<rparr>)
      in if proj_enroll < 100 then t2\<lparr>below_threshold := below_threshold t2 + 1\<rparr> else t2)"

fun school_loop :: "real \<Rightarrow> school list \<Rightarrow> tally \<Rightarrow> tally" where
  "school_loop ratio [] t = t"
| "school_loop ratio (s # ss) t = school_loop ratio ss (school_step ratio s t)"

record year_entry =
  pct_decline :: real
  schools_green :: int
  schools_yellow :: int
  schools_orange :: int
  schools_red :: int
  schools_below_threshold :: int
  projected_enrollment_out :: int

text \<open>
  The entry stored under \<open>entry["scenarios"][scenario_key][str(yr)]\<close>, from the two
  school-age populations, the multiplier and the county's schools.
  \<open>total_enrollment = sum(s["enrollment"] for s in school_list)\<close>.
\<close>

definition county_year :: "real \<Rightarrow> real \<Rightarrow> real \<Rightarrow> school list \<Rightarrow> year_entry" where
  "county_year proj_sa base_sa tps school_list =
     (let total_enrollment = sum_list (map enrollment school_list);
          ratio = combined_ratio (demo_ratio proj_sa base_sa) tps;
          t = school_loop ratio school_list tally0;
          pct = (if total_enrollment > 0
                 then (1 - projected_enrollment t / total_enrollment) * 100 else 0)
      in \<lparr>pct_decline = py_round pct 1,
          schools_green = green t, schools_yellow = yellow t,
          schools_orange = orange t, schools_red = red t,
          schools_below_threshold = below_threshold t,
          projected_enrollment_out = round_half_even (projected_enrollment t)\<rparr>)"

text \<open>\<open>num_schools = len(school_list)\<close>, stored as \<open>schools_total\<close>.\<close>

definition num_schools :: "school list \<Rightarrow> int" where
  "num_schools school_list = int (length school_list)"

section \<open>process_closure_risk.py: compute_enrollment_decline\<close>

text \<open>
  \<open>scenario_data\<close> maps a calendar year to the dict that \<open>build_fertility_projections\<close>
  creates with \<open>rate\<close> and \<open>birth_decline_pct\<close>; \<open>compute_enrollment_decline\<close> adds
  \<open>post_2022_fraction\<close> and \<open>enrollment_decline_pct\<close>. A key that is not set is \<open>None\<close>.
\<close>

record yr_data =
  rate :: "real option"
  birth_decline_pct :: "real option"
  post_2022_fraction :: "real option"
  enrollment_decline_pct :: "real option"

type_synonym scenario_data = "(int \<times> yr_data) list"

text \<open>\<open>bd = scenario_data.get(birth_year, {}).get('birth_decline_pct', 0)\<close>\<close>

definition birth_decline :: "scenario_data \<Rightarrow> int \<Rightarrow> real" where
  "birth_decline sd birth_year =
     (case map_of sd birth_year of
        None \<Rightarrow> 0
      | Some d \<Rightarrow> (case birth_decline_pct d of None \<Rightarrow> 0 | Some bd \<Rightarrow> bd))"

text \<open>
  \<open>for birth_year in range(birth_year_start, birth_year_end + 1)\<close>, on the pair
  \<open>(post_2022_grades, total_birth_decline)\<close>.
\<close>

fun cohort_loop :: "scenario_data \<Rightarrow> int list \<Rightarrow> int \<times> real \<Rightarrow> int \<times> real" where
  "cohort_loop sd [] acc = acc"
| "cohort_loop sd (birth_year # rest) (post_2022_grades, total_birth_decline) =
     (if birth_year > 2022
      then cohort_loop sd rest
             (post_2022_grades + 1, total_birth_decline + birth_decline sd birth_year)
      else cohort_loop sd rest (post_2022_grades, total_birth_decline))"

record decline_locals =
  post_2022_grades :: int
  avg_birth_decline :: real
  post_2022_fraction_raw :: real
  enrollment_decline_pct_raw :: real

text \<open>The local variables at the end of one iteration of \<open>for target_year in range(2025, 2051)\<close>.\<close>

definition decline_locals_of :: "scenario_data \<Rightarrow> int \<Rightarrow> decline_locals" where
  "decline_locals_of sd target_year =
     (let birth_year_start = target_year - 17;
          birth_year_end = target_year - 5;
          total_grades = 13 :: int;
          (grades, total_birth_decline) =
             cohort_loop sd [birth_year_start .. birth_year_end] (0, 0);
          avg = (if grades > 0 then total_birth_decline / of_int grades else 0);
          fraction = of_int grades / of_int total_grades
      in \<lparr>post_2022_grades = grades, avg_birth_decline = avg,
          post_2022_fraction_raw = fraction,
          enrollment_decline_pct_raw = fraction * avg\<rparr>)"

text \<open>
  The two stores that end the iteration; \<open>scenario_data[target_year]\<close> raises \<open>KeyError\<close>
  for a year the trajectory does not have.
\<close>

definition store_decline :: "decline_locals \<Rightarrow> yr_data \<Rightarrow> yr_data" where
  "store_decline l d =
     d\<lparr>post_2022_fraction := Some (py_round (post_2022_fraction_raw l) 3),
       enrollment_decline_pct := Some (py_round (enrollment_decline_pct_raw l) 2)\<rparr>"

definition decline_step :: "int \<Rightarrow> scenario_data \<Rightarrow> error + scenario_data" where
  "decline_step target_year sd =
     (let l = decline_locals_of sd target_year
      in case map_of sd target_year of
           None \<Rightarrow> Inl KeyError
         | Some d \<Rightarrow> Inr (AList.update target_year (store_decline l d) sd))"

fun decline_loop :: "int list \<Rightarrow> scenario_data \<Rightarrow> error + scenario_data" where
  "decline_loop [] sd = Inr sd"
| "decline_loop (target_year # rest) sd =
     (case decline_step target_year sd of
        Inl e \<Rightarrow> Inl e
      | Inr sd' \<Rightarrow> decline_loop rest sd')"

text \<open>One scenario of one state: \<open>range(2025, 2051)\<close>.\<close>

definition compute_enrollment_decline :: "scenario_data \<Rightarrow> error + scenario_data" where
  "compute_enrollment_decline sd = decline_loop [2025 .. 2050] sd"

text \<open>
  The claim's reading of the iteration, for comparison: the enrolled birth years of target year
  \<open>Y\<close> that lie after 2022, and the mean of the trajectory's birth decline over them.
\<close>

definition affected_birth_years :: "int \<Rightarrow> int list" where
  "affected_birth_years Y = filter (\<lambda>b. 2022 < b) [Y - 17 .. Y - 5]"

definition mean_birth_decline :: "scenario_data \<Rightarrow> int \<Rightarrow> real" where
  "mean_birth_decline sd Y =
     (if affected_birth_years Y = [] then 0
      else sum_list (map (birth_decline sd) (affected_birth_years Y)) / real (length (affected_birth_years Y)))"

text \<open>A trajectory over 2022..2050 whose birth decline grows by one point a year.\<close>

definition example_trajectory :: scenario_data where
  "example_trajectory =
     map (\<lambda>y. (y, \<lparr>rate = None, birth_decline_pct = Some (of_int (y - 2022)),
                      post_2022_fraction = None, enrollment_decline_pct = None\<rparr>))
       [2022 .. 2050]"

section \<open>process_closure_risk.py: process_ccd_schools\<close>

text \<open>
  The per-state record that \<open>process_ccd_schools\<close> builds, and its aggregation loop over the
  filtered schools. A school is given by its state code (\<open>state_location\<close> or, failing that,
  \<open>state_mailing\<close>; the empty string when both are missing) and its enrollment.
\<close>

record state_schools =
  total_schools :: int
  total_enrollment :: real
  bucket_under100 :: int
  bucket_100_199 :: int
  bucket_200_299 :: int
  bucket_300_499 :: int
  bucket_500plus :: int

definition state_schools0 :: state_schools where
  "state_schools0 =
     \<lparr>total_schools = 0, total_enrollment = 0, bucket_under100 = 0, bucket_100_199 = 0,
      bucket_200_299 = 0, bucket_300_499 = 0, bucket_500plus = 0\<rparr>"

definition ccd_add :: "real \<Rightarrow> state_schools \<Rightarrow> state_schools" where
  "ccd_add enr sd =
     (let sd1 = sd\<lparr>total_schools := total_schools sd + 1,
                    total_enrollment := total_enrollment sd + enr\<rparr>
      in if enr < 100 then sd1\<lparr>bucket_under100 := bucket_under100 sd1 + 1\<rparr>
         else if enr < 200 then sd1\<lparr>bucket_100_199 := bucket_100_199 sd1 + 1\<rparr>
         else if enr < 300 then sd1\<lparr>bucket_200_299 := bucket_200_299 sd1 + 1\<rparr>
         else if enr < 500 then sd1\<lparr>bucket_300_499 := bucket_300_499 sd1 + 1\<rparr>
         else sd1\<lparr>bucket_500plus := bucket_500plus sd1 + 1\<rparr>)"

fun ccd_aggregate ::
  "(string \<times> real) list \<Rightarrow> (string \<times> state_schools) list \<Rightarrow> (string \<times> state_schools) list"
where
  "ccd_aggregate [] state_data = state_data"
| "ccd_aggregate ((st, enr) # rest) state_data =
     (if length st \<noteq> 2 then ccd_aggregate rest state_data
      else let sd = (case map_of state_data st of None \<Rightarrow> state_schools0 | Some sd \<Rightarrow> sd)
           in ccd_aggregate rest (AList.update st (ccd_add enr sd) state_data))"

text \<open>What every record of \<open>process_ccd_schools\<close> satisfies: each school is counted once
  in the total and once in exactly one bucket.\<close>

definition ccd_inv :: "state_schools \<Rightarrow> bool" where
  "ccd_inv sd \<longleftrightarrow>
     0 \<le> bucket_under100 sd \<and> 0 \<le> bucket_100_199 sd \<and> 0 \<le> bucket_200_299 sd \<and>
     0 \<le> bucket_300_499 sd \<and> 0 \<le> bucket_500plus sd \<and>
     total_schools sd =
       bucket_under100 sd + bucket_100_199 sd + bucket_200_299 sd + bucket_300_499 sd +
       bucket_500plus sd"

definition process_ccd_schools :: "(string \<times> real) list \<Rightarrow> (string \<times> state_schools) list" where
  "process_ccd_schools filtered = ccd_aggregate filtered []"

section \<open>process_closure_risk.py: estimate_closures\<close>

text \<open>\<open>CLOSURE_PROBS\<close> of process_closure_risk.py.\<close>

definition risk_large_stable :: real where "risk_large_stable = 75 / 10000"
definition risk_mild_decline :: real where "risk_mild_decline = 10 / 1000"
definition risk_medium_decline :: real where "risk_medium_decline = 15 / 1000"
definition risk_small_steep :: real where "risk_small_steep = 3 / 100"
definition risk_tiny :: real where "risk_tiny = 4 / 100"

text \<open>The two dicts built at the top of the loop over states.\<close>

definition buckets_of :: "state_schools \<Rightarrow> (string \<times> int) list" where
  "buckets_of schools =
     [(''under100'', bucket_under100 schools),
      (''100_199'', bucket_100_199 schools),
      (''200_299'', bucket_200_299 schools),
      (''300_499'', bucket_300_499 schools),
      (''500plus'', bucket_500plus schools)]"

definition avg_enrollment_of :: "state_schools \<Rightarrow> (string \<times> real) list" where
  "avg_enrollment_of schools =
     [(''under100'', 55),
      (''100_199'', 150),
      (''200_299'', 250),
      (''300_499'', 400),
      (''500plus'',
         if bucket_500plus schools > 0
         then max 750 (total_enrollment schools / of_int (max (bucket_500plus schools) 1))
         else 750)]"

text \<open>\<open>cum_prob = 1.0 - (1.0 - annual_prob) ** years\<close>, for an int \<open>years\<close> that is at least 1.\<close>

definition cum_prob :: "real \<Rightarrow> int \<Rightarrow> real" where
  "cum_prob annual_prob years = 1 - (1 - annual_prob) ^ nat years"

text \<open>The \<open>if\<close>/\<open>elif\<close> chain that selects \<open>annual_prob\<close>.\<close>

definition annual_prob_state :: "real \<Rightarrow> real \<Rightarrow> real" where
  "annual_prob_state projected_enr decline_ratio =
     (if projected_enr < 100 then risk_tiny
      else if projected_enr < 200 \<and> decline_ratio > 25 / 100 then risk_small_steep
      else if decline_ratio > 10 / 100 then risk_medium_decline
      else if decline_ratio > 3 / 100 then risk_mild_decline
      else risk_large_stable)"

record closure_acc =
  expected_closures :: real
  risk_elevated :: int
  risk_severe :: int

text \<open>
  The body of \<open>for bucket_name, count in buckets.items()\<close> after the lookup of the bucket's
  average enrollment; \<open>cnt\<close> is the source's \<open>count\<close> and \<open>years\<close> its
  \<open>years_from_2025\<close>.
\<close>

definition closure_step :: "real \<Rightarrow> int \<Rightarrow> real \<Rightarrow> int \<Rightarrow> closure_acc \<Rightarrow> closure_acc" where
  "closure_step decline_ratio years avg_enr cnt acc =
     (let projected_enr = avg_enr * (1 - decline_ratio);
          (annual_prob, acc1) =
            (if projected_enr < 100
             then (risk_tiny, acc\<lparr>risk_severe := risk_severe acc + cnt,
                                   risk_elevated := risk_elevated acc + cnt\<rparr>)
             else if projected_enr < 200 \<and> decline_ratio > 25 / 100
             then (risk_small_steep, acc\<lparr>risk_severe := risk_severe acc + cnt,
                                          risk_elevated := risk_elevated acc + cnt\<rparr>)
             else if decline_ratio > 10 / 100
             then (risk_medium_decline, acc\<lparr>risk_elevated := risk_elevated acc + cnt\<rparr>)
             else if decline_ratio > 3 / 100
             then (risk_mild_decline, acc\<lparr>risk_elevated := risk_elevated acc + cnt\<rparr>)
             else (risk_large_stable, acc))
      in acc1\<lparr>expected_closures :=
                expected_closures acc1 + of_int cnt * cum_prob annual_prob years\<rparr>)"

fun closure_loop ::
  "(string \<times> real) list \<Rightarrow> real \<Rightarrow> int \<Rightarrow> (string \<times> int) list \<Rightarrow> closure_acc
     \<Rightarrow> error + closure_acc"
where
  "closure_loop avg_enrollment decline_ratio years [] acc = Inr acc"
| "closure_loop avg_enrollment decline_ratio years ((bucket_name, cnt) # rest) acc =
     (if cnt = 0 then closure_loop avg_enrollment decline_ratio years rest acc
      else case map_of avg_enrollment bucket_name of
             None \<Rightarrow> Inl KeyError
           | Some avg_enr \<Rightarrow>
               closure_loop avg_enrollment decline_ratio years rest
                 (closure_step decline_ratio years avg_enr cnt acc))"

record closure_out =
  projected_enrollment_state :: int
  expected_closures_out :: real
  expected_closures_pct :: real
  schools_elevated_risk :: int
  schools_elevated_risk_pct :: real
  schools_severe_risk :: int
  schools_severe_risk_pct :: real

text \<open>\<open>years_from_2025 = max(target_year - 2025, 1)\<close>\<close>

definition years_from_2025 :: "int \<Rightarrow> int" where
  "years_from_2025 target_year = max (target_year - 2025) 1"

text \<open>
  One iteration of \<open>for target_year in PROJECTION_YEARS\<close> for one state and one scenario:
  \<open>enroll_decline_pct\<close> is \<open>yr_data.get('enrollment_decline_pct', 0)\<close>. The result is the
  loop's accumulator together with the seven values stored into \<open>yr_data\<close>. The state's
  \<open>current_schools\<close> is \<open>total_schools schools\<close>.
\<close>

definition estimate_year :: "state_schools \<Rightarrow> real \<Rightarrow> int \<Rightarrow> error + closure_acc \<times> closure_out" where
  "estimate_year schools enroll_decline_pct target_year =
     (let total = total_schools schools;
          enr = total_enrollment schools;
          decline_ratio = enroll_decline_pct / 100
      in case closure_loop (avg_enrollment_of schools) decline_ratio
                (years_from_2025 target_year) (buckets_of schools)
                \<lparr>expected_closures = 0, risk_elevated = 0, risk_severe = 0\<rparr> of
           Inl e \<Rightarrow> Inl e
         | Inr acc \<Rightarrow>
             Inr (acc,
               \<lparr>projected_enrollment_state = round_half_even (enr * (1 - decline_ratio)),
                expected_closures_out = py_round (expected_closures acc) 1,
                expected_closures_pct =
                  (if total > 0 then py_round (expected_closures acc / of_int total * 100) 1
                   else 0),
                schools_elevated_risk = risk_elevated acc,
                schools_elevated_risk_pct =
                  (if total > 0
                   then py_round (of_int (risk_elevated acc) / of_int total * 100) 1 else 0),
                schools_severe_risk = risk_severe acc,
                schools_severe_risk_pct =
                  (if total > 0
                   then py_round (of_int (risk_severe acc) / of_int total * 100) 1 else 0)\<rparr>))"

text \<open>\<open>enroll_decline_pct = yr_data.get('enrollment_decline_pct', 0)\<close> for
  \<open>yr_data = scenario_data.get(target_year, {})\<close>.\<close>

definition enroll_decline_of :: "scenario_data \<Rightarrow> int \<Rightarrow> real" where
  "enroll_decline_of sd target_year =
     (case map_of sd target_year of
        None \<Rightarrow> 0
      | Some d \<Rightarrow> (case enrollment_decline_pct d of None \<Rightarrow> 0 | Some p \<Rightarrow> p))"

section \<open>process_cooper_center.py\<close>

text \<open>\<open>CLOSURE_PROBS\<close> of process_cooper_center.py.\<close>

definition cooper_large_stable :: real where "cooper_large_stable = 1 / 100"
definition cooper_medium_decline :: real where "cooper_medium_decline = 2 / 100"
definition cooper_small_steep :: real where "cooper_small_steep = 5 / 100"
definition cooper_tiny :: real where "cooper_tiny = 10 / 100"

definition cooper_avg_enrollment :: "(string \<times> real) list" where
  "cooper_avg_enrollment =
     [(''under100'', 55), (''100_199'', 150), (''200_299'', 250), (''300_499'', 400),
      (''500plus'', 750)]"

definition annual_prob_cooper :: "real \<Rightarrow> real \<Rightarrow> real" where
  "annual_prob_cooper projected_enr decline_ratio =
     (if projected_enr < 100 then cooper_tiny
      else if projected_enr < 200 \<and> decline_ratio > 25 / 100 then cooper_small_steep
      else if projected_enr < 300 \<and> decline_ratio > 10 / 100 then cooper_medium_decline
      else if decline_ratio > 10 / 100 then cooper_medium_decline
      else cooper_large_stable)"

text \<open>
  \<open>compute_closures(decline_ratio, buckets, years_from_baseline)\<close>: the loop on
  \<open>expected_closures\<close>, over the items of the \<open>buckets\<close> dict read from the JSON file.
\<close>

fun compute_closures_loop :: "real \<Rightarrow> int \<Rightarrow> (string \<times> int) list \<Rightarrow> real \<Rightarrow> error + real" where
  "compute_closures_loop decline_ratio years_from_baseline [] expected = Inr expected"
| "compute_closures_loop decline_ratio years_from_baseline ((bucket_name, cnt) # rest) expected =
     (if cnt = 0 then compute_closures_loop decline_ratio years_from_baseline rest expected
      else case map_of cooper_avg_enrollment bucket_name of
             None \<Rightarrow> Inl KeyError
           | Some avg_enr \<Rightarrow>
               (let projected_enr = avg_enr * (1 - decline_ratio);
                    annual_prob = annual_prob_cooper projected_enr decline_ratio;
                    years = max years_from_baseline 1;
                    cum = cum_prob annual_prob years
                in compute_closures_loop decline_ratio years_from_baseline rest
                     (expected + of_int cnt * cum)))"

definition compute_closures :: "real \<Rightarrow> (string \<times> int) list \<Rightarrow> int \<Rightarrow> error + real" where
  "compute_closures decline_ratio buckets years_from_baseline =
     compute_closures_loop decline_ratio years_from_baseline buckets 0"

record cooper_entry =
  cooper_enrollment_decline_pct :: real
  cooper_projected_enrollment :: real
  cooper_expected_closures :: real
  cooper_expected_closures_pct :: real
  cooper_school_age_2020 :: int
  cooper_school_age_proj :: int

text \<open>
  The body of \<open>for yr in [2030]\<close> in \<open>main\<close>, for a state whose 2020 baseline \<open>sa_2020\<close>
  is present and not zero. \<open>sa_yr\<close> is \<open>school_age[yr].get(abbr)\<close>; \<open>Inr None\<close> is the
  \<open>continue\<close> that leaves the year out of the scenario.
\<close>

definition cooper_year ::
  "real \<Rightarrow> real option \<Rightarrow> real \<Rightarrow> int \<Rightarrow> (string \<times> int) list \<Rightarrow> int
     \<Rightarrow> error + cooper_entry option"
where
  "cooper_year sa_2020 sa_yr_opt current_enrollment total_schools_c buckets yr =
     (case sa_yr_opt of
        None \<Rightarrow> Inr None
      | Some sa_yr \<Rightarrow>
          if sa_yr = 0 then Inr None
          else
            let ratio = sa_yr / sa_2020;
                decline = py_round ((1 - ratio) * 100) 2;
                proj_enrollment = round_half_even (current_enrollment * ratio);
                closures_r =
                  (if ratio \<ge> 1 then Inr 0
                   else let closure_decline_ratio = 1 - ratio;
                            years = max (yr - 2025) 1
                        in compute_closures closure_decline_ratio buckets years)
            in case closures_r of
                 Inl e \<Rightarrow> Inl e
               | Inr closures \<Rightarrow>
                   Inr (Some
                     \<lparr>cooper_enrollment_decline_pct = decline,
                      cooper_projected_enrollment = of_int proj_enrollment,
                      cooper_expected_closures = py_round closures 1,
                      cooper_expected_closures_pct =
                        (if total_schools_c > 0
                         then py_round (closures / of_int total_schools_c * 100) 1 else 0),
                      cooper_school_age_2020 = round_half_even sa_2020,
                      cooper_school_age_proj = round_half_even sa_yr\<rparr>))"

text \<open>
  The body of \<open>for abbr, state_entry in state_proj.items()\<close>: \<open>sa_2020_opt\<close> is
  \<open>school_age[2020].get(abbr)\<close> and \<open>school_age_yr yr\<close> is \<open>school_age[yr].get(abbr)\<close>.
  \<open>Inr None\<close> is the state skipped for want of a baseline; otherwise the scenario holds the
  2020 entry and the entries of \<open>for yr in [2030]\<close> (keyed here by the year, in the source
  by its decimal string).
\<close>

fun cooper_years ::
  "real \<Rightarrow> (int \<Rightarrow> real option) \<Rightarrow> real \<Rightarrow> int \<Rightarrow> (string \<times> int) list \<Rightarrow> int list
     \<Rightarrow> (int \<times> cooper_entry) list \<Rightarrow> error + (int \<times> cooper_entry) list"
where
  "cooper_years sa_2020 school_age_yr current_enrollment total_schools_c buckets [] sc = Inr sc"
| "cooper_years sa_2020 school_age_yr current_enrollment total_schools_c buckets (yr # yrs) sc =
     (case cooper_year sa_2020 (school_age_yr yr) current_enrollment total_schools_c buckets yr of
        Inl e \<Rightarrow> Inl e
      | Inr None \<Rightarrow>
          cooper_years sa_2020 school_age_yr current_enrollment total_schools_c buckets yrs sc
      | Inr (Some entry) \<Rightarrow>
          cooper_years sa_2020 school_age_yr current_enrollment total_schools_c buckets yrs
            (AList.update yr entry sc))"

definition cooper_state ::
  "real option \<Rightarrow> (int \<Rightarrow> real option) \<Rightarrow> real \<Rightarrow> int \<Rightarrow> (string \<times> int) list
     \<Rightarrow> error + (int \<times> cooper_entry) list option"
where
  "cooper_state sa_2020_opt school_age_yr current_enrollment total_schools_c buckets =
     (case sa_2020_opt of
        None \<Rightarrow> Inr None
      | Some sa_2020 \<Rightarrow>
          if sa_2020 = 0 then Inr None
          else
            case cooper_years sa_2020 school_age_yr current_enrollment total_schools_c buckets
                   [2030]
                   [(2020,
                     \<lparr>cooper_enrollment_decline_pct = 0,
                      cooper_projected_enrollment = current_enrollment,
                      cooper_expected_closures = 0,
                      cooper_expected_closures_pct = 0,
                      cooper_school_age_2020 = round_half_even sa_2020,
                      cooper_school_age_proj = round_half_even sa_2020\<rparr>)] of
              Inl e \<Rightarrow> Inl e
            | Inr sc \<Rightarrow> Inr (Some sc))"

text \<open>
  The claims' reading of the rule table, for comparison: an ordered list of rules, each a
  predicate on (projected size, decline ratio) with its probability; the first rule that
  matches is selected, the default when none does.
\<close>

fun first_match :: "(('a \<Rightarrow> bool) \<times> 'b) list \<Rightarrow> 'b \<Rightarrow> 'a \<Rightarrow> 'b" where
  "first_match [] dflt x = dflt"
| "first_match ((p, v) # rules) dflt x = (if p x then v else first_match rules dflt x)"

definition rule_table_state :: "((real \<times> real \<Rightarrow> bool) \<times> real) list" where
  "rule_table_state =
     [(\<lambda>(size, decline). size < 100, risk_tiny),
      (\<lambda>(size, decline). size < 200 \<and> decline > 25 / 100, risk_small_steep),
      (\<lambda>(size, decline). decline > 10 / 100, risk_medium_decline),
      (\<lambda>(size, decline). decline > 3 / 100, risk_mild_decline)]"

definition rule_table_cooper :: "((real \<times> real \<Rightarrow> bool) \<times> real) list" where
  "rule_table_cooper =
     [(\<lambda>(size, decline). size < 100, cooper_tiny),
      (\<lambda>(size, decline). size < 200 \<and> decline > 25 / 100, cooper_small_steep),
      (\<lambda>(size, decline). decline > 10 / 100, cooper_medium_decline)]"

text \<open>
  The sum of \<open>count * cum\<close> over the buckets with a nonzero count, and the buckets whose
  lookup would fail.
\<close>

definition closures_sum ::
  "(real \<Rightarrow> real \<Rightarrow> real) \<Rightarrow> (string \<rightharpoonup> real) \<Rightarrow> real \<Rightarrow> int \<Rightarrow> (string \<times> int) list \<Rightarrow> real"
where
  "closures_sum prob avg decline_ratio years buckets =
     (\<Sum>(name, cnt) \<leftarrow> filter (\<lambda>(name, cnt). cnt \<noteq> 0) buckets.
        of_int cnt *
          (case avg name of
             None \<Rightarrow> 0
           | Some avg_enr \<Rightarrow>
               1 - (1 - prob (avg_enr * (1 - decline_ratio)) decline_ratio) ^ nat (max years 1)))"

definition unknown_bucket :: "(string \<rightharpoonup> real) \<Rightarrow> (string \<times> int) list \<Rightarrow> bool" where
  "unknown_bucket avg buckets =
     list_ex (\<lambda>(name, cnt). cnt \<noteq> 0 \<and> avg name = None) buckets"

section \<open>process_data.py: process_hauer, the aggregation\<close>

text \<open>
  A Python \<open>str\<close> is the list of its code points; \<open>ascii\<close> writes one from a literal.
\<close>

type_synonym pystr = "nat list"

definition ascii :: "string \<Rightarrow> pystr" where
  "ascii s = map of_char s"

text \<open>
  A row of the CSV file, as \<open>csv.DictReader\<close> hands it over: under each key a text, or
  \<open>None\<close> when the line is too short to reach the column, or no such key at all when the
  header lacks the column. A numeric column is modelled by what the conversion of its cell
  does: \<open>Absent\<close> for a missing key (the default text \<open>"0"\<close> is converted), \<open>NoneCell\<close>
  for \<open>None\<close> (\<open>int\<close> and \<open>float\<close> raise \<open>TypeError\<close>), \<open>Unparseable\<close> for a text
  on which they raise \<open>ValueError\<close>, \<open>Parsed v\<close> for a text they convert to \<open>v\<close>. The
  two code columns keep their text.
\<close>

datatype 'a cell = Absent | NoneCell | Unparseable | Parsed 'a

datatype field = NoKey | NoneValue | Value pystr

record row =
  YEAR :: "int cell"
  STATE :: field
  COUNTY :: field
  AGE :: "int cell"
  SSP2 :: "real cell"

text \<open>A complete row whose two codes are ASCII texts and whose numbers convert.\<close>

definition csv_row :: "int \<Rightarrow> string \<Rightarrow> string \<Rightarrow> int \<Rightarrow> real \<Rightarrow> row" where
  "csv_row year state county age_group v =
     \<lparr>YEAR = Parsed year, STATE = Value (ascii state), COUNTY = Value (ascii county),
      AGE = Parsed age_group, SSP2 = Parsed v\<rparr>"

text \<open>\<open>int(row.get(key, "0"))\<close> and \<open>float(row.get(key, "0"))\<close>\<close>

definition convert :: "'a::zero cell \<Rightarrow> error + 'a" where
  "convert c =
     (case c of
        Absent \<Rightarrow> Inr 0
      | NoneCell \<Rightarrow> Inl TypeError
      | Unparseable \<Rightarrow> Inl ValueError
      | Parsed v \<Rightarrow> Inr v)"

text \<open>
  \<open>str.strip()\<close> removes the white space of Unicode at both ends (the code points for which
  \<open>str.isspace\<close> holds); \<open>str.zfill(width)\<close> pads with zeros on the left, after a leading
  sign.
\<close>

definition is_space :: "nat \<Rightarrow> bool" where
  "is_space c \<longleftrightarrow>
     c \<in> set [0x09, 0x0A, 0x0B, 0x0C, 0x0D, 0x1C, 0x1D, 0x1E, 0x1F, 0x20, 0x85, 0xA0, 0x1680]
     \<or> (0x2000 \<le> c \<and> c \<le> 0x200A)
     \<or> c \<in> set [0x2028, 0x2029, 0x202F, 0x205F, 0x3000]"

definition py_strip :: "pystr \<Rightarrow> pystr" where
  "py_strip s = rev (dropWhile is_space (rev (dropWhile is_space s)))"

definition py_zfill :: "nat \<Rightarrow> pystr \<Rightarrow> pystr" where
  "py_zfill width s =
     (if width \<le> length s then s
      else case s of
             c # r \<Rightarrow>
               if c = of_char (CHR ''+'') \<or> c = of_char (CHR ''-'')
               then c # replicate (width - length s) (of_char (CHR ''0'')) @ r
               else replicate (width - length s) (of_char (CHR ''0'')) @ s
           | [] \<Rightarrow> replicate width (of_char (CHR ''0'')))"

text \<open>\<open>row.get(key, "").strip().zfill(width)\<close>; \<open>None\<close> has no \<open>strip\<close>.\<close>

definition code_of :: "nat \<Rightarrow> field \<Rightarrow> error + pystr" where
  "code_of width f =
     (case f of
        NoKey \<Rightarrow> Inr (py_zfill width (py_strip []))
      | NoneValue \<Rightarrow> Inl AttributeError
      | Value s \<Rightarrow> Inr (py_zfill width (py_strip s)))"

definition STATE_FIPS :: "pystr list" where
  "STATE_FIPS = map ascii
     [''01'', ''02'', ''04'', ''05'', ''06'', ''08'', ''09'', ''10'', ''11'', ''12'',
      ''13'', ''15'', ''16'', ''17'', ''18'', ''19'', ''20'', ''21'', ''22'', ''23'',
      ''24'', ''25'', ''26'', ''27'', ''28'', ''29'', ''30'', ''31'', ''32'', ''33'',
      ''34'', ''35'', ''36'', ''37'', ''38'', ''39'', ''40'', ''41'', ''42'', ''44'',
      ''45'', ''46'', ''47'', ''48'', ''49'', ''50'', ''51'', ''53'', ''54'', ''55'', ''56'']"

text \<open>\<open>YEARS\<close> and \<open>TARGET_YEARS\<close> of process_data.py; \<open>YEARS\<close> of process_school_data.py.\<close>

definition YEARS :: "int list" where
  "YEARS = [2020, 2025, 2030, 2035, 2040, 2045, 2050]"

definition TARGET_YEARS :: "int list" where
  "TARGET_YEARS = [2025, 2030, 2035, 2040, 2045, 2050]"

definition SCHOOL_YEARS :: "int list" where
  "SCHOOL_YEARS = [2025, 2030, 2035, 2040, 2045, 2050]"

text \<open>
  \<open>county_data\<close> is a \<open>defaultdict\<close> of \<open>defaultdict\<close>s of accumulators:
  \<open>county_data[fips][year]\<close> creates the missing levels, the innermost from \<open>zero\<close>, and
  \<open>f\<close> is what the statements that follow do to the accumulator.
\<close>

type_synonym ('k, 'a) nested = "('k \<times> (int \<times> 'a) list) list"

definition nested_update ::
  "'a \<Rightarrow> ('a \<Rightarrow> 'a) \<Rightarrow> 'k \<Rightarrow> int \<Rightarrow> ('k, 'a) nested \<Rightarrow> ('k, 'a) nested" where
  "nested_update zero f fips_code year county_data =
     (let years_data = (case map_of county_data fips_code of None \<Rightarrow> [] | Some ys \<Rightarrow> ys);
          a = (case map_of years_data year of None \<Rightarrow> zero | Some a \<Rightarrow> a)
      in AList.update fips_code (AList.update year (f a) years_data) county_data)"

text \<open>The aggregate of one county and year: \<open>county_data[fips][year]\<close> when both keys exist.\<close>

definition aggregate_of :: "('k, 'a) nested \<Rightarrow> 'k \<times> int \<Rightarrow> 'a option" where
  "aggregate_of county_data k =
     (case map_of county_data (fst k) of None \<Rightarrow> None | Some ys \<Rightarrow> map_of ys (snd k))"

record agg =
  acc_total :: real
  acc_65plus :: real
  acc_85plus :: real

definition agg0 :: agg where
  "agg0 = \<lparr>acc_total = 0, acc_65plus = 0, acc_85plus = 0\<rparr>"

text \<open>The three \<open>+=\<close> of the loop body, each a float addition.\<close>

definition hauer_add :: "int \<Rightarrow> real \<Rightarrow> agg \<Rightarrow> agg" where
  "hauer_add age_group v a =
     (let a1 = a\<lparr>acc_total := float_add (acc_total a) v\<rparr>;
          a2 = (if age_group \<ge> 14 then a1\<lparr>acc_65plus := float_add (acc_65plus a1) v\<rparr>
                else a1)
      in if age_group \<ge> 18 then a2\<lparr>acc_85plus := float_add (acc_85plus a2) v\<rparr> else a2)"

text \<open>
  What one row does, shared by the two readers of the file: \<open>in_years\<close> is the year test
  and \<open>add\<close> the accumulation. \<open>Inr None\<close> is a \<open>continue\<close>, \<open>Inr (Some (fips, year,
  age_group, value))\<close> a row that reaches the accumulation, \<open>Inl e\<close> the uncaught exception
  of a conversion or of \<open>strip\<close>. The statements run in the order of the source: the year is
  converted before the year filter, both codes are built before the state filter, the age group
  and the value are converted after it.
\<close>

definition read_row :: "(int \<Rightarrow> bool) \<Rightarrow> row \<Rightarrow> error + (pystr \<times> int \<times> int \<times> real) option" where
  "read_row in_years r =
     (case convert (YEAR r) of
        Inl e \<Rightarrow> Inl e
      | Inr year \<Rightarrow>
          if \<not> in_years year then Inr None
          else
            case code_of 2 (STATE r) of
              Inl e \<Rightarrow> Inl e
            | Inr state_fips \<Rightarrow>
                (case code_of 3 (COUNTY r) of
                   Inl e \<Rightarrow> Inl e
                 | Inr county_fips \<Rightarrow>
                     if state_fips \<notin> set STATE_FIPS then Inr None
                     else case convert (AGE r) of
                            Inl e \<Rightarrow> Inl e
                          | Inr age_group \<Rightarrow>
                              (case convert (SSP2 r) of
                                 Inl e \<Rightarrow> Inl e
                               | Inr v \<Rightarrow>
                                   Inr (Some (state_fips @ county_fips, year, age_group, v)))))"

text \<open>
  The loop \<open>for row in reader\<close> on \<open>(row_count, county_data)\<close>; \<open>row_count\<close> is
  incremented for every row that is read and only drives a progress message.
\<close>

fun read_loop ::
  "(int \<Rightarrow> bool) \<Rightarrow> 'a \<Rightarrow> (int \<Rightarrow> real \<Rightarrow> 'a \<Rightarrow> 'a) \<Rightarrow> row list
     \<Rightarrow> int \<times> (pystr, 'a) nested \<Rightarrow> error + int \<times> (pystr, 'a) nested"
where
  "read_loop in_years zero add [] st = Inr st"
| "read_loop in_years zero add (r # rs) (row_count, county_data) =
     (case read_row in_years r of
        Inl e \<Rightarrow> Inl e
      | Inr None \<Rightarrow> read_loop in_years zero add rs (row_count + 1, county_data)
      | Inr (Some (fips_code, year, age_group, v)) \<Rightarrow>
          read_loop in_years zero add rs
            (row_count + 1, nested_update zero (add age_group v) fips_code year county_data))"

text \<open>\<open>if year not in YEARS and year != 2020: continue\<close>\<close>

definition hauer_in_years :: "int \<Rightarrow> bool" where
  "hauer_in_years year \<longleftrightarrow> \<not> (year \<notin> set YEARS \<and> year \<noteq> 2020)"

definition hauer_aggregate :: "row list \<Rightarrow> error + int \<times> (pystr, agg) nested" where
  "hauer_aggregate rows = read_loop hauer_in_years agg0 hauer_add rows (0, [])"

section \<open>process_school_data.py: process_hauer_school_age\<close>

record sa_agg =
  school_age :: real
  sa_total :: real

definition sa_agg0 :: sa_agg where
  "sa_agg0 = \<lparr>school_age = 0, sa_total = 0\<rparr>"

definition school_age_add :: "int \<Rightarrow> real \<Rightarrow> sa_agg \<Rightarrow> sa_agg" where
  "school_age_add age_group v a =
     (let a1 = a\<lparr>sa_total := float_add (sa_total a) v\<rparr>
      in if age_group \<in> set [2, 3, 4] then a1\<lparr>school_age := float_add (school_age a1) v\<rparr>
         else a1)"

text \<open>\<open>if year not in [2020] + YEARS: continue\<close>\<close>

definition school_in_years :: "int \<Rightarrow> bool" where
  "school_in_years year \<longleftrightarrow> \<not> (year \<notin> set ([2020] @ SCHOOL_YEARS))"

definition process_hauer_school_age :: "row list \<Rightarrow> error + int \<times> (pystr, sa_agg) nested" where
  "process_hauer_school_age rows = read_loop school_in_years sa_agg0 school_age_add rows (0, [])"

text \<open>
  For comparison with the loop: the rows on which the body raises, the contribution of a row
  to a (county, year) key, the contributions to one key in the order of the rows, and the
  effect of a row on the aggregates seen as a map from (county, year).
\<close>

definition unconvertible :: "'a cell \<Rightarrow> bool" where
  "unconvertible c \<longleftrightarrow> c = NoneCell \<or> c = Unparseable"

definition known_state :: "row \<Rightarrow> bool" where
  "known_state r \<longleftrightarrow>
     (case code_of 2 (STATE r) of Inl e \<Rightarrow> False | Inr state_fips \<Rightarrow> state_fips \<in> set STATE_FIPS)"

definition fatal_row :: "(int \<Rightarrow> bool) \<Rightarrow> row \<Rightarrow> bool" where
  "fatal_row in_years r \<longleftrightarrow> isl (read_row in_years r)"

definition row_contribution :: "(int \<Rightarrow> bool) \<Rightarrow> row \<Rightarrow> ((pystr \<times> int) \<times> int \<times> real) option" where
  "row_contribution in_years r =
     (case read_row in_years r of
        Inr (Some (fips_code, year, age_group, v)) \<Rightarrow> Some ((fips_code, year), age_group, v)
      | _ \<Rightarrow> None)"


definition apply_row ::
  "(int \<Rightarrow> bool) \<Rightarrow> 'a \<Rightarrow> (int \<Rightarrow> real \<Rightarrow> 'a \<Rightarrow> 'a) \<Rightarrow> row
     \<Rightarrow> (pystr \<times> int \<rightharpoonup> 'a) \<Rightarrow> (pystr \<times> int \<rightharpoonup> 'a)"
where
  "apply_row in_years zero add r m =
     (case row_contribution in_years r of
        Some (k, age_group, v) \<Rightarrow>
          m(k \<mapsto> add age_group v (case m k of None \<Rightarrow> zero | Some a \<Rightarrow> a))
      | None \<Rightarrow> m)"

section \<open>process_data.py: process_hauer, the target years\<close>

text \<open>\<open>d[k]\<close> on a dict: \<open>KeyError\<close> for a missing key.\<close>

definition dict_index :: "('k \<times> 'v) list \<Rightarrow> 'k \<Rightarrow> error + 'v" where
  "dict_index d k = (case map_of d k of None \<Rightarrow> Inl KeyError | Some v \<Rightarrow> Inr v)"

text \<open>The dict built from \<open>d1\<close>, \<open>d2\<close> and \<open>t\<close> in the interpolation branch.\<close>

definition interpolate :: "real \<Rightarrow> agg \<Rightarrow> agg \<Rightarrow> agg" where
  "interpolate t d1 d2 =
     \<lparr>acc_total = acc_total d1 + t * (acc_total d2 - acc_total d1),
      acc_65plus = acc_65plus d1 + t * (acc_65plus d2 - acc_65plus d1),
      acc_85plus = acc_85plus d1 + t * (acc_85plus d2 - acc_85plus d1)\<rparr>"

text \<open>
  The value \<open>d\<close> that one iteration of \<open>for target_year in TARGET_YEARS\<close> resolves from a
  county's \<open>years_data\<close>; \<open>Inr None\<close> is the \<open>continue\<close> of the last \<open>else\<close>.
\<close>

definition hauer_resample :: "(int \<times> agg) list \<Rightarrow> int \<Rightarrow> error + agg option" where
  "hauer_resample years_data target_year =
     (case map_of years_data target_year of
        Some d \<Rightarrow> Inr (Some d)
      | None \<Rightarrow>
          let avail = sort (map fst years_data);
              before = filter (\<lambda>y. y \<le> target_year) avail;
              after = filter (\<lambda>y. y \<ge> target_year) avail
          in if before \<noteq> [] \<and> after \<noteq> [] then
               let y1 = last before; y2 = hd after
               in if y1 = y2 then map_sum id Some (dict_index years_data y1)
                  else
                    let t = of_int (target_year - y1) / of_int (y2 - y1)
                    in case dict_index years_data y1 of
                         Inl e \<Rightarrow> Inl e
                       | Inr d1 \<Rightarrow>
                           (case dict_index years_data y2 of
                              Inl e \<Rightarrow> Inl e
                            | Inr d2 \<Rightarrow> Inr (Some (interpolate t d1 d2)))
             else if before \<noteq> [] then map_sum id Some (dict_index years_data (last before))
             else if after \<noteq> [] then map_sum id Some (dict_index years_data (hd after))
             else Inr None)"

record hauer_year_out =
  pct_65plus :: real
  pct_85plus :: real
  pop_total :: int
  pop_65plus :: int
  pop_85plus :: int

text \<open>The entry written for a target year, only \<open>if total > 0\<close>.\<close>

definition hauer_year_entry :: "agg \<Rightarrow> hauer_year_out option" where
  "hauer_year_entry d =
     (let tot = acc_total d; p65 = acc_65plus d; p85 = acc_85plus d
      in if tot > 0
         then Some \<lparr>pct_65plus = py_round (100 * p65 / tot) 1,
                    pct_85plus = py_round (100 * p85 / tot) 1,
                    pop_total = round_half_even tot,
                    pop_65plus = round_half_even p65,
                    pop_85plus = round_half_even p85\<rparr>
         else None)"

text \<open>
  \<open>for target_year in TARGET_YEARS\<close> on \<open>entry["years"]\<close> (keyed here by the year, in the
  source by its decimal string).
\<close>

fun hauer_target_loop ::
  "(int \<times> agg) list \<Rightarrow> int list \<Rightarrow> (int \<times> hauer_year_out) list
     \<Rightarrow> error + (int \<times> hauer_year_out) list"
where
  "hauer_target_loop years_data [] years_out = Inr years_out"
| "hauer_target_loop years_data (target_year # rest) years_out =
     (case hauer_resample years_data target_year of
        Inl e \<Rightarrow> Inl e
      | Inr None \<Rightarrow> hauer_target_loop years_data rest years_out
      | Inr (Some d) \<Rightarrow>
          (case hauer_year_entry d of
             None \<Rightarrow> hauer_target_loop years_data rest years_out
           | Some out \<Rightarrow>
               hauer_target_loop years_data rest (AList.update target_year out years_out)))"

text \<open>
  \<open>for fips, years_data in county_data.items()\<close> on \<open>output\<close>; a county is stored only
  \<open>if entry["years"]\<close>. The entry's \<open>name\<close> label is left out.
\<close>

fun hauer_output_loop ::
  "('k, agg) nested \<Rightarrow> ('k \<times> (int \<times> hauer_year_out) list) list
     \<Rightarrow> error + ('k \<times> (int \<times> hauer_year_out) list) list"
where
  "hauer_output_loop [] output = Inr output"
| "hauer_output_loop ((fips_code, years_data) # rest) output =
     (case hauer_target_loop years_data TARGET_YEARS [] of
        Inl e \<Rightarrow> Inl e
      | Inr years_out \<Rightarrow>
          if years_out \<noteq> [] then hauer_output_loop rest (AList.update fips_code years_out output)
          else hauer_output_loop rest output)"

definition process_hauer ::
  "row list \<Rightarrow> error + (pystr \<times> (int \<times> hauer_year_out) list) list" where
  "process_hauer rows =
     (case hauer_aggregate rows of
        Inl e \<Rightarrow> Inl e
      | Inr (row_count, county_data) \<Rightarrow> hauer_output_loop county_data [])"

section \<open>process_school_data.py: assemble_risk_data, the Hauer projection\<close>

text \<open>
  Step 1 of the loop body for \<open>demo == "hauer"\<close>: the projected school-age population
  \<open>proj_sa\<close> and the baseline \<open>base_sa\<close>, from \<open>hauer_data\<close> and the county's ACS
  baseline \<open>baseline_sa\<close>.
\<close>

definition hauer_proj_sa :: "('k, sa_agg) nested \<Rightarrow> 'k \<Rightarrow> int \<Rightarrow> real \<Rightarrow> error + real" where
  "hauer_proj_sa hauer_data fips_code yr baseline_sa =
     (case map_of hauer_data fips_code of
        None \<Rightarrow> Inr baseline_sa
      | Some years_data \<Rightarrow>
          (case map_of years_data yr of
             Some d \<Rightarrow> Inr (school_age d)
           | None \<Rightarrow>
               let avail = sort (map fst years_data);
                   before = filter (\<lambda>y. y \<le> yr) avail;
                   after = filter (\<lambda>y. y \<ge> yr) avail
               in if before \<noteq> [] \<and> after \<noteq> [] then
                    let y1 = last before; y2 = hd after
                    in if y1 = y2 then map_sum id school_age (dict_index years_data y1)
                       else
                         let t = of_int (yr - y1) / of_int (y2 - y1)
                         in case dict_index years_data y1 of
                              Inl e \<Rightarrow> Inl e
                            | Inr d1 \<Rightarrow>
                                (case dict_index years_data y2 of
                                   Inl e \<Rightarrow> Inl e
                                 | Inr d2 \<Rightarrow>
                                     Inr (school_age d1 +
                                          t * (school_age d2 - school_age d1)))
                  else Inr baseline_sa))"

definition hauer_base_sa :: "('k, sa_agg) nested \<Rightarrow> 'k \<Rightarrow> real \<Rightarrow> real" where
  "hauer_base_sa hauer_data fips_code baseline_sa =
     (case map_of hauer_data fips_code of
        None \<Rightarrow> baseline_sa
      | Some years_data \<Rightarrow>
          (case map_of years_data 2020 of None \<Rightarrow> baseline_sa | Some d \<Rightarrow> school_age d))"

text \<open>The entry of one county, scenario and year for the Hauer source.\<close>

definition county_year_hauer ::
  "('k, sa_agg) nested \<Rightarrow> (string \<times> (int \<times> real) list) list \<Rightarrow> 'k \<Rightarrow> string \<Rightarrow> int \<Rightarrow> real
     \<Rightarrow> school list \<Rightarrow> error + year_entry"
where
  "county_year_hauer hauer_data tps_multipliers fips_code scenario yr baseline_sa school_list =
     (case hauer_proj_sa hauer_data fips_code yr baseline_sa of
        Inl e \<Rightarrow> Inl e
      | Inr proj_sa \<Rightarrow>
          (case tps_mult tps_multipliers scenario yr of
             Inl e \<Rightarrow> Inl e
           | Inr tps \<Rightarrow>
               Inr (county_year proj_sa (hauer_base_sa hauer_data fips_code baseline_sa) tps
                      school_list)))"

section \<open>Cohort-lag decline model\<close>


lemma cohort_loop_eq:
  "cohort_loop sd bys (g, t) =
     (g + int (length (filter (\<lambda>b. 2022 < b) bys)),
      t + sum_list (map (birth_decline sd) (filter (\<lambda>b. 2022 < b) bys)))"
  by (induction bys arbitrary: g t) simp_all

lemma decline_locals_eq:
  "decline_locals_of sd Y =
     \<lparr>post_2022_grades = int (length (affected_birth_years Y)),
      avg_birth_decline =
        (if affected_birth_years Y = [] then 0
         else sum_list (map (birth_decline sd) (affected_birth_years Y)) / real (length (affected_birth_years Y))),
      post_2022_fraction_raw = real (length (affected_birth_years Y)) / 13,
      enrollment_decline_pct_raw =
        real (length (affected_birth_years Y)) / 13 *
        (if affected_birth_years Y = [] then 0
         else sum_list (map (birth_decline sd) (affected_birth_years Y)) / real (length (affected_birth_years Y)))\<rparr>"
  by (simp add: decline_locals_of_def cohort_loop_eq affected_birth_years_def Let_def)

lemma decline_locals_cong:
  "birth_decline sd' = birth_decline sd \<Longrightarrow> decline_locals_of sd' Y = decline_locals_of sd Y"
  by (simp add: decline_locals_eq)

lemma decline_step_lookup:
  assumes "decline_step Y sd = Inr sd'"
  shows "map_of sd' Y' =
           (if Y' = Y then map_option (store_decline (decline_locals_of sd Y)) (map_of sd Y)
            else map_of sd Y')"
  using assms
  by (auto simp: decline_step_def Let_def update_conv' split: option.splits)

lemma birth_decline_store [simp]: "birth_decline_pct (store_decline l d) = birth_decline_pct d"
  by (simp add: store_decline_def)

lemma decline_step_birth:
  assumes "decline_step Y sd = Inr sd'"
  shows "birth_decline sd' = birth_decline sd"
proof
  fix b
  show "birth_decline sd' b = birth_decline sd b"
    using decline_step_lookup [OF assms, of b]
    by (auto simp: birth_decline_def split: option.splits)
qed

lemma decline_step_ok:
  "map_of sd Y \<noteq> None \<Longrightarrow> \<exists>sd'. decline_step Y sd = Inr sd'"
  by (auto simp: decline_step_def Let_def split: option.splits)

lemma decline_loop_result:
  "distinct ys \<Longrightarrow> \<forall>Y\<in>set ys. map_of sd Y \<noteq> None \<Longrightarrow>
   \<exists>sd'. decline_loop ys sd = Inr sd' \<and> birth_decline sd' = birth_decline sd \<and>
     (\<forall>Y. map_of sd' Y =
        (if Y \<in> set ys then map_option (store_decline (decline_locals_of sd Y)) (map_of sd Y)
         else map_of sd Y))"
proof (induction ys arbitrary: sd)
  case Nil
  then show ?case by simp
next
  case (Cons y ys)
  from Cons.prems obtain sd1 where s1: "decline_step y sd = Inr sd1"
    using decline_step_ok [of sd y] by auto
  note lk = decline_step_lookup [OF s1]
  note bd = decline_step_birth [OF s1]
  have "\<forall>Y\<in>set ys. map_of sd1 Y \<noteq> None"
    using Cons.prems by (auto simp: lk)
  with Cons.IH [of sd1] Cons.prems obtain sd' where
    l: "decline_loop ys sd1 = Inr sd'" and b: "birth_decline sd' = birth_decline sd1" and
    m: "\<forall>Y. map_of sd' Y =
        (if Y \<in> set ys then map_option (store_decline (decline_locals_of sd1 Y)) (map_of sd1 Y)
         else map_of sd1 Y)"
    by auto
  have "decline_loop (y # ys) sd = Inr sd'" using s1 l by simp
  moreover have "birth_decline sd' = birth_decline sd" using b bd by simp
  moreover have "\<forall>Y. map_of sd' Y =
        (if Y \<in> set (y # ys) then map_option (store_decline (decline_locals_of sd Y)) (map_of sd Y)
         else map_of sd Y)"
    using m Cons.prems(1) by (auto simp: lk decline_locals_cong [OF bd])
  ultimately show ?case by blast
qed

lemma upto13:
  "[y - 17 .. y - 5] =
     [y - 17, y - 16, y - 15, y - 14, y - 13, y - 12, y - 11, y - 10, y - 9, y - 8, y - 7,
      y - 6, y - 5 :: int]"
  by (simp add: upto_rec1)

lemma length_affected: "int (length (affected_birth_years Y)) = max 0 (min 13 (Y - 2027))"
  by (simp add: affected_birth_years_def upto13)

lemma affected_2025: "affected_birth_years 2025 = []"
  by (simp add: affected_birth_years_def upto13)

lemma affected_2040: "length (affected_birth_years 2040) = 13"
  by (simp add: affected_birth_years_def upto13)

lemma map_of_tabulate:
  "map_of (map (\<lambda>y. (y, f y)) ys) Y = (if Y \<in> set ys then Some (f Y) else None)"
  by (induction ys) auto

text \<open>
  C1 (as amended). For a trajectory that has every target year 2025..2050,
  \<open>compute_enrollment_decline\<close> succeeds and, for each target year \<open>Y\<close> in that range:
  the affected grades are the birth years of \<open>Y - 17 .. Y - 5\<close> after 2022, the average is
  the arithmetic mean of the birth decline over exactly those years (0 when there is none), the
  enrollment decline is \<open>affected / 13 * average\<close>, and what is stored under
  \<open>enrollment_decline_pct\<close> is that product rounded to two decimals
  (\<open>post_2022_fraction\<close>: the fraction rounded to three). Target year 2025 has no affected
  grade and stores 0; target year 2040 has 13 affected grades and stores the fraction 1.
\<close>

theorem cohort_lag_decline_rounded:
  assumes "\<forall>Y\<in>{2025..2050}. map_of sd Y \<noteq> None"
  shows "\<exists>sd'. compute_enrollment_decline sd = Inr sd' \<and>
     (\<forall>Y\<in>{2025..2050}. \<exists>d d'. map_of sd Y = Some d \<and> map_of sd' Y = Some d' \<and>
        post_2022_grades (decline_locals_of sd Y) = int (length (affected_birth_years Y)) \<and>
        avg_birth_decline (decline_locals_of sd Y) = mean_birth_decline sd Y \<and>
        enrollment_decline_pct_raw (decline_locals_of sd Y) =
          real (length (affected_birth_years Y)) / 13 * mean_birth_decline sd Y \<and>
        post_2022_fraction d' = Some (py_round (real (length (affected_birth_years Y)) / 13) 3) \<and>
        enrollment_decline_pct d' =
          Some (py_round (real (length (affected_birth_years Y)) / 13 * mean_birth_decline sd Y) 2) \<and>
        birth_decline_pct d' = birth_decline_pct d \<and> rate d' = rate d) \<and>
     post_2022_grades (decline_locals_of sd 2025) = 0 \<and>
     (\<exists>d. map_of sd' 2025 = Some d \<and> enrollment_decline_pct d = Some 0) \<and>
     post_2022_grades (decline_locals_of sd 2040) = 13 \<and>
     (\<exists>d. map_of sd' 2040 = Some d \<and> post_2022_fraction d = Some 1)"
proof -
  have "distinct [2025 .. 2050 :: int]" by (rule distinct_upto)
  moreover have "\<forall>Y\<in>set [2025 .. 2050]. map_of sd Y \<noteq> None"
    using assms by (simp only: set_upto)
  ultimately obtain sd' where
    r: "decline_loop [2025 .. 2050] sd = Inr sd'" and
    m: "\<forall>Y. map_of sd' Y =
        (if Y \<in> {2025..2050}
         then map_option (store_decline (decline_locals_of sd Y)) (map_of sd Y)
         else map_of sd Y)"
    using decline_loop_result [of "[2025 .. 2050]" sd] by (simp only: set_upto) blast
  have each: "\<exists>d. map_of sd Y = Some d \<and>
       map_of sd' Y = Some (store_decline (decline_locals_of sd Y) d)"
    if "Y \<in> {2025..2050}" for Y
  proof -
    from that assms obtain d where d: "map_of sd Y = Some d" by blast
    from m have "map_of sd' Y =
        (if Y \<in> {2025..2050}
         then map_option (store_decline (decline_locals_of sd Y)) (map_of sd Y)
         else map_of sd Y)" ..
    with that d show ?thesis by simp
  qed
  have a: "\<forall>Y\<in>{2025..2050}. \<exists>d d'. map_of sd Y = Some d \<and> map_of sd' Y = Some d' \<and>
        post_2022_grades (decline_locals_of sd Y) = int (length (affected_birth_years Y)) \<and>
        avg_birth_decline (decline_locals_of sd Y) = mean_birth_decline sd Y \<and>
        enrollment_decline_pct_raw (decline_locals_of sd Y) =
          real (length (affected_birth_years Y)) / 13 * mean_birth_decline sd Y \<and>
        post_2022_fraction d' = Some (py_round (real (length (affected_birth_years Y)) / 13) 3) \<and>
        enrollment_decline_pct d' =
          Some (py_round (real (length (affected_birth_years Y)) / 13 * mean_birth_decline sd Y) 2) \<and>
        birth_decline_pct d' = birth_decline_pct d \<and> rate d' = rate d"
  proof
    fix Y :: int assume "Y \<in> {2025..2050}"
    from each [OF this] obtain d where
      "map_of sd Y = Some d" "map_of sd' Y = Some (store_decline (decline_locals_of sd Y) d)"
      by blast
    then show "\<exists>d d'. map_of sd Y = Some d \<and> map_of sd' Y = Some d' \<and>
        post_2022_grades (decline_locals_of sd Y) = int (length (affected_birth_years Y)) \<and>
        avg_birth_decline (decline_locals_of sd Y) = mean_birth_decline sd Y \<and>
        enrollment_decline_pct_raw (decline_locals_of sd Y) =
          real (length (affected_birth_years Y)) / 13 * mean_birth_decline sd Y \<and>
        post_2022_fraction d' = Some (py_round (real (length (affected_birth_years Y)) / 13) 3) \<and>
        enrollment_decline_pct d' =
          Some (py_round (real (length (affected_birth_years Y)) / 13 * mean_birth_decline sd Y) 2) \<and>
        birth_decline_pct d' = birth_decline_pct d \<and> rate d' = rate d"
      by (simp add: decline_locals_eq mean_birth_decline_def store_decline_def)
  qed
  have g25: "post_2022_grades (decline_locals_of sd 2025) = 0"
    by (simp add: decline_locals_eq affected_2025)
  have g40: "post_2022_grades (decline_locals_of sd 2040) = 13"
    by (simp add: decline_locals_eq affected_2040)
  have r0: "py_round 0 nd = 0" for nd
    by (simp add: py_round_def round_half_even_def)
  have r1: "py_round 1 3 = 1"
    by (simp add: py_round_def round_half_even_def)
  have s25: "\<exists>d. map_of sd' 2025 = Some d \<and> enrollment_decline_pct d = Some 0"
    using each [of 2025]
    by (auto simp: store_decline_def decline_locals_eq affected_2025 r0)
  have s40: "\<exists>d. map_of sd' 2040 = Some d \<and> post_2022_fraction d = Some 1"
    using each [of 2040]
    by (auto simp: store_decline_def decline_locals_eq affected_2040 r1)
  show ?thesis
    unfolding compute_enrollment_decline_def using r a g25 s25 g40 s40 by blast
qed

lemma affected_2030: "affected_birth_years 2030 = [2023, 2024, 2025]"
  by (simp add: affected_birth_years_def upto13)

lemma example_lookup:
  "map_of example_trajectory Y =
     (if Y \<in> {2022..2050}
      then Some \<lparr>rate = None, birth_decline_pct = Some (of_int (Y - 2022)),
                 post_2022_fraction = None, enrollment_decline_pct = None\<rparr>
      else None)"
  unfolding example_trajectory_def map_of_tabulate by (simp only: set_upto)

text \<open>The theorem at the example trajectory: target year 2030 stores 0.46 and 0.231.\<close>

theorem cohort_lag_decline_rounded_witness:
  "\<exists>sd'. compute_enrollment_decline example_trajectory = Inr sd' \<and>
      (\<exists>d. map_of sd' 2030 = Some d \<and> enrollment_decline_pct d = Some (23 / 50) \<and>
           post_2022_fraction d = Some (231 / 1000))"
proof -
  have h: "\<forall>Y\<in>{2025..2050}. map_of example_trajectory Y \<noteq> None"
    by (simp add: example_lookup)
  have m: "mean_birth_decline example_trajectory 2030 = 2"
    by (simp add: mean_birth_decline_def affected_2030 birth_decline_def example_lookup)
  have r: "py_round (6 / 13) 2 = 23 / 50" "py_round (3 / 13) 3 = 231 / 1000"
    by (simp_all add: py_round_def round_half_even_def)
  from cohort_lag_decline_rounded [OF h] obtain sd' where
    c: "compute_enrollment_decline example_trajectory = Inr sd'" and
    a: "\<forall>Y\<in>{2025..2050}. \<exists>d d'. map_of example_trajectory Y = Some d \<and> map_of sd' Y = Some d' \<and>
        post_2022_grades (decline_locals_of example_trajectory Y) = int (length (affected_birth_years Y)) \<and>
        avg_birth_decline (decline_locals_of example_trajectory Y) =
          mean_birth_decline example_trajectory Y \<and>
        enrollment_decline_pct_raw (decline_locals_of example_trajectory Y) =
          real (length (affected_birth_years Y)) / 13 * mean_birth_decline example_trajectory Y \<and>
        post_2022_fraction d' = Some (py_round (real (length (affected_birth_years Y)) / 13) 3) \<and>
        enrollment_decline_pct d' =
          Some (py_round (real (length (affected_birth_years Y)) / 13 *
                  mean_birth_decline example_trajectory Y) 2) \<and>
        birth_decline_pct d' = birth_decline_pct d \<and> rate d' = rate d"
    by blast
  have "(2030::int) \<in> {2025..2050}" by simp
  with a have "\<exists>d'. map_of sd' 2030 = Some d' \<and>
        post_2022_fraction d' = Some (py_round (real (length (affected_birth_years 2030)) / 13) 3) \<and>
        enrollment_decline_pct d' =
          Some (py_round (real (length (affected_birth_years 2030)) / 13 *
                  mean_birth_decline example_trajectory 2030) 2)"
    by blast
  then have "\<exists>d. map_of sd' 2030 = Some d \<and> enrollment_decline_pct d = Some (23 / 50) \<and>
           post_2022_fraction d = Some (231 / 1000)"
    by (simp add: affected_2030 m r conj_commute)
  with c show ?thesis by blast
qed

text \<open>
  C1 as stated fails: with a birth decline of 1 percent in 2023, target year 2028 has one
  affected grade and \<open>1 / 13 * 1\<close> as its product, but 0.08 is what is stored.
\<close>

theorem cohort_lag_unrounded_counterexample:
  "decline_step 2028
     [(2028, \<lparr>rate = None, birth_decline_pct = None, post_2022_fraction = None,
              enrollment_decline_pct = None\<rparr>),
      (2023, \<lparr>rate = None, birth_decline_pct = Some 1, post_2022_fraction = None,
              enrollment_decline_pct = None\<rparr>)] =
   Inr [(2028, \<lparr>rate = None, birth_decline_pct = None, post_2022_fraction = Some (77 / 1000),
              enrollment_decline_pct = Some (2 / 25)\<rparr>),
      (2023, \<lparr>rate = None, birth_decline_pct = Some 1, post_2022_fraction = None,
              enrollment_decline_pct = None\<rparr>)] \<and>
   real_of_int (post_2022_grades (decline_locals_of
     [(2028, \<lparr>rate = None, birth_decline_pct = None, post_2022_fraction = None,
              enrollment_decline_pct = None\<rparr>),
      (2023, \<lparr>rate = None, birth_decline_pct = Some 1, post_2022_fraction = None,
              enrollment_decline_pct = None\<rparr>)] 2028)) / 13 *
   avg_birth_decline (decline_locals_of
     [(2028, \<lparr>rate = None, birth_decline_pct = None, post_2022_fraction = None,
              enrollment_decline_pct = None\<rparr>),
      (2023, \<lparr>rate = None, birth_decline_pct = Some 1, post_2022_fraction = None,
              enrollment_decline_pct = None\<rparr>)] 2028) = 1 / 13 \<and>
   (1 / 13 :: real) \<noteq> 2 / 25"
proof -
  have a: "affected_birth_years 2028 = [2023]" by (simp add: affected_birth_years_def upto13)
  have r: "py_round (1 / 13) 2 = 2 / 25" "py_round (1 / 13) 3 = 77 / 1000"
    by (simp_all add: py_round_def round_half_even_def)
  show ?thesis
    by (simp add: decline_step_def decline_locals_eq a birth_decline_def store_decline_def r)
qed

section \<open>Closure risk scorer\<close>

lemma annual_prob_state_table:
  "annual_prob_state p d = first_match rule_table_state risk_large_stable (p, d)"
  by (simp add: annual_prob_state_def rule_table_state_def)

lemma annual_prob_cooper_table:
  "annual_prob_cooper p d = first_match rule_table_cooper cooper_large_stable (p, d)"
  by (simp add: annual_prob_cooper_def rule_table_cooper_def)

lemma closure_step_expected:
  "expected_closures (closure_step dr years a c acc) =
     expected_closures acc + of_int c * cum_prob (annual_prob_state (a * (1 - dr)) dr) years"
  by (simp add: closure_step_def annual_prob_state_def Let_def)

lemma closure_loop_expected:
  "map_sum id expected_closures (closure_loop avg dr (max y 1) buckets acc) =
     (if unknown_bucket (map_of avg) buckets then Inl KeyError
      else Inr (expected_closures acc + closures_sum annual_prob_state (map_of avg) dr y buckets))"
proof (induction buckets arbitrary: acc)
  case Nil
  then show ?case by (simp add: unknown_bucket_def closures_sum_def)
next
  case (Cons b bs)
  obtain name c where b: "b = (name, c)" by (cases b)
  show ?case
  proof (cases "c = 0")
    case True
    with Cons [of acc] b show ?thesis
      by (simp add: unknown_bucket_def closures_sum_def)
  next
    case False
    show ?thesis
    proof (cases "map_of avg name")
      case None
      with False b show ?thesis by (simp add: unknown_bucket_def)
    next
      case (Some a)
      with False b Cons [of "closure_step dr (max y 1) a c acc"] show ?thesis
        by (simp add: unknown_bucket_def closures_sum_def closure_step_expected cum_prob_def)
    qed
  qed
qed

lemma compute_closures_loop_eq:
  "compute_closures_loop dr y buckets e =
     (if unknown_bucket (map_of cooper_avg_enrollment) buckets then Inl KeyError
      else Inr (e + closures_sum annual_prob_cooper (map_of cooper_avg_enrollment) dr y buckets))"
proof (induction buckets arbitrary: e)
  case Nil
  then show ?case by (simp add: unknown_bucket_def closures_sum_def)
next
  case (Cons b bs)
  obtain name c where b: "b = (name, c)" by (cases b)
  show ?case
  proof (cases "c = 0")
    case True
    with Cons [of e] b show ?thesis
      by (simp add: unknown_bucket_def closures_sum_def)
  next
    case False
    show ?thesis
    proof (cases "map_of cooper_avg_enrollment name")
      case None
      with False b show ?thesis by (simp add: unknown_bucket_def)
    next
      case (Some a)
      with False b Cons show ?thesis
        by (simp add: unknown_bucket_def closures_sum_def cum_prob_def Let_def)
    qed
  qed
qed

lemma known_buckets: "\<not> unknown_bucket (map_of (avg_enrollment_of s)) (buckets_of s)"
  by (simp add: unknown_bucket_def avg_enrollment_of_def buckets_of_def)

text \<open>
  C2. In both scorers the annual probability of a bucket is the first match of an ordered rule
  table on (projected size, decline ratio), with a flat background rate as the default:
  projected size below 100 first, then projected size below 200 with a decline ratio above
  0.25, then the decline-ratio thresholds. The projected size is
  \<open>avg_enrollment * (1 - decline_ratio)\<close>, the cumulative probability is
  \<open>1 - (1 - annual_prob) ^ years\<close> with \<open>years\<close> floored at 1, and the loop's
  \<open>expected_closures\<close> is \<open>count * cum\<close> summed over the buckets with a nonzero count.
  This holds of the loop of \<open>estimate_closures\<close> (from any accumulator, and from zero for a
  state, where no lookup can fail) and of the value \<open>compute_closures\<close> returns; a bucket
  name without an average enrollment raises \<open>KeyError\<close>.
\<close>

theorem closure_scorer_formula:
  "annual_prob_state p d = first_match rule_table_state risk_large_stable (p, d)
   \<and> annual_prob_cooper p d = first_match rule_table_cooper cooper_large_stable (p, d)
   \<and> map_sum id expected_closures
         (closure_loop avg dr (years_from_2025 target_year) buckets acc) =
       (if unknown_bucket (map_of avg) buckets then Inl KeyError
        else Inr (expected_closures acc +
                  closures_sum annual_prob_state (map_of avg) dr (target_year - 2025) buckets))
   \<and> map_sum id (expected_closures \<circ> fst) (estimate_year schools pct target_year) =
       Inr (closures_sum annual_prob_state (map_of (avg_enrollment_of schools)) (pct / 100)
              (target_year - 2025) (buckets_of schools))
   \<and> compute_closures dr buckets y =
       (if unknown_bucket (map_of cooper_avg_enrollment) buckets then Inl KeyError
        else Inr (closures_sum annual_prob_cooper (map_of cooper_avg_enrollment) dr y buckets))"
proof -
  have l: "map_sum id expected_closures
         (closure_loop avg dr (years_from_2025 target_year) buckets acc) =
       (if unknown_bucket (map_of avg) buckets then Inl KeyError
        else Inr (expected_closures acc +
                  closures_sum annual_prob_state (map_of avg) dr (target_year - 2025) buckets))"
    for avg dr buckets acc
    unfolding years_from_2025_def by (rule closure_loop_expected)
  have e: "map_sum id (expected_closures \<circ> fst) (estimate_year schools pct target_year) =
       Inr (closures_sum annual_prob_state (map_of (avg_enrollment_of schools)) (pct / 100)
              (target_year - 2025) (buckets_of schools))"
    using l [of "avg_enrollment_of schools" "pct / 100" "buckets_of schools"
               "\<lparr>expected_closures = 0, risk_elevated = 0, risk_severe = 0\<rparr>"]
      known_buckets [of schools]
    by (auto simp: estimate_year_def Let_def split: sum.splits)
  show ?thesis
    using l e annual_prob_state_table annual_prob_cooper_table
    by (simp add: compute_closures_def compute_closures_loop_eq)
qed


subsection \<open>The risk tallies of the state-level scorer\<close>

lemma ccd_inv0: "ccd_inv state_schools0"
  by (simp add: ccd_inv_def state_schools0_def)

lemma ccd_inv_add: "ccd_inv sd \<Longrightarrow> ccd_inv (ccd_add enr sd)"
  by (simp add: ccd_inv_def ccd_add_def Let_def)

lemma ccd_aggregate_inv:
  "(\<And>st sd. map_of state_data st = Some sd \<Longrightarrow> ccd_inv sd) \<Longrightarrow>
   map_of (ccd_aggregate filtered state_data) st = Some sd \<Longrightarrow> ccd_inv sd"
proof (induction filtered arbitrary: state_data)
  case Nil
  then show ?case by simp
next
  case (Cons s rest)
  obtain st' enr where s: "s = (st', enr)" by (cases s)
  show ?case
  proof (cases "length st' \<noteq> 2")
    case True
    with Cons.prems(2) s have "map_of (ccd_aggregate rest state_data) st = Some sd" by simp
    with Cons.IH [of state_data] Cons.prems(1) show ?thesis by blast
  next
    case False
    let ?old = "case map_of state_data st' of None \<Rightarrow> state_schools0 | Some sd \<Rightarrow> sd"
    have old: "ccd_inv ?old"
      using Cons.prems(1) by (auto simp: ccd_inv0 split: option.splits)
    have "\<And>k v. map_of (AList.update st' (ccd_add enr ?old) state_data) k = Some v \<Longrightarrow> ccd_inv v"
      using Cons.prems(1) ccd_inv_add [OF old]
      by (auto simp: update_conv' split: if_splits)
    from Cons.IH [OF this] Cons.prems(2) False s show ?thesis
      by (simp add: Let_def)
  qed
qed

lemma closure_step_tallies:
  "0 \<le> c \<Longrightarrow>
   risk_severe acc \<le> risk_severe (closure_step dr y a c acc) \<and>
   risk_severe (closure_step dr y a c acc) - risk_severe acc \<le>
     risk_elevated (closure_step dr y a c acc) - risk_elevated acc \<and>
   risk_elevated (closure_step dr y a c acc) - risk_elevated acc \<le> c"
  by (simp add: closure_step_def Let_def)

lemma closure_loop_tallies:
  "\<forall>(n, c)\<in>set buckets. 0 \<le> c \<Longrightarrow> closure_loop avg dr y buckets acc = Inr acc' \<Longrightarrow>
   risk_severe acc \<le> risk_severe acc' \<and>
   risk_severe acc' - risk_severe acc \<le> risk_elevated acc' - risk_elevated acc \<and>
   risk_elevated acc' - risk_elevated acc \<le> sum_list (map snd buckets)"
proof (induction buckets arbitrary: acc)
  case Nil
  then show ?case by simp
next
  case (Cons b bs)
  obtain name c where b: "b = (name, c)" by (cases b)
  show ?case
  proof (cases "c = 0")
    case True
    with Cons b show ?thesis by simp
  next
    case False
    with Cons.prems b obtain a where a: "map_of avg name = Some a"
      by (cases "map_of avg name") auto
    from Cons.prems b have c: "0 \<le> c" by simp
    from Cons.prems b False a have
      "closure_loop avg dr y bs (closure_step dr y a c acc) = Inr acc'" by simp
    from Cons.IH [OF _ this] Cons.prems(1) have
      "risk_severe (closure_step dr y a c acc) \<le> risk_severe acc' \<and>
       risk_severe acc' - risk_severe (closure_step dr y a c acc)
         \<le> risk_elevated acc' - risk_elevated (closure_step dr y a c acc) \<and>
       risk_elevated acc' - risk_elevated (closure_step dr y a c acc) \<le> sum_list (map snd bs)"
      by simp
    with closure_step_tallies [OF c, of acc dr y a] b show ?thesis by simp
  qed
qed

lemma estimate_year_ok: "\<exists>acc out. estimate_year schools pct ty = Inr (acc, out)"
proof -
  let ?l = "closure_loop (avg_enrollment_of schools) (pct / 100) (max (ty - 2025) 1)
            (buckets_of schools) \<lparr>expected_closures = 0, risk_elevated = 0, risk_severe = 0\<rparr>"
  have "\<exists>v. map_sum id expected_closures ?l = Inr v"
    by (simp add: closure_loop_expected known_buckets)
  then obtain acc where "?l = Inr acc"
    by (cases ?l) auto
  then show ?thesis
    by (simp add: estimate_year_def years_from_2025_def Let_def)
qed

text \<open>
  C9. For every state that \<open>process_ccd_schools\<close> produces, every decline percentage and
  every target year, \<open>estimate_closures\<close> succeeds and its two tallies are nested:
  \<open>0 \<le> schools_severe_risk \<le> schools_elevated_risk \<le> current_schools\<close>.
\<close>

theorem risk_tallies_nested:
  assumes "map_of (process_ccd_schools filtered) st = Some schools"
  shows "\<exists>acc out. estimate_year schools pct target_year = Inr (acc, out) \<and>
           0 \<le> schools_severe_risk out \<and>
           schools_severe_risk out \<le> schools_elevated_risk out \<and>
           schools_elevated_risk out \<le> total_schools schools"
proof -
  have inv: "ccd_inv schools"
    using ccd_aggregate_inv [of "[]" filtered st schools] assms
    by (simp add: process_ccd_schools_def)
  obtain acc out where r: "estimate_year schools pct target_year = Inr (acc, out)"
    using estimate_year_ok by blast
  then have l: "closure_loop (avg_enrollment_of schools) (pct / 100) (years_from_2025 target_year)
            (buckets_of schools) \<lparr>expected_closures = 0, risk_elevated = 0, risk_severe = 0\<rparr>
          = Inr acc"
    and o: "schools_severe_risk out = risk_severe acc" "schools_elevated_risk out = risk_elevated acc"
    by (auto simp: estimate_year_def Let_def split: sum.splits)
  have nn: "\<forall>(n, c)\<in>set (buckets_of schools). 0 \<le> c"
    using inv by (simp add: buckets_of_def ccd_inv_def)
  have s: "sum_list (map snd (buckets_of schools)) = total_schools schools"
    using inv by (simp add: buckets_of_def ccd_inv_def)
  from closure_loop_tallies [OF nn l] s o have
    "0 \<le> schools_severe_risk out \<and>
           schools_severe_risk out \<le> schools_elevated_risk out \<and>
           schools_elevated_risk out \<le> total_schools schools"
    by simp
  with r show ?thesis by blast
qed

lemma example_ccd:
  "map_of (process_ccd_schools [(''CA'', 50), (''CA'', 600), (''X'', 10)]) ''CA'' =
     Some \<lparr>total_schools = 2, total_enrollment = 650, bucket_under100 = 1, bucket_100_199 = 0,
           bucket_200_299 = 0, bucket_300_499 = 0, bucket_500plus = 1\<rparr>"
  by (simp add: process_ccd_schools_def ccd_add_def state_schools0_def Let_def)

text \<open>The theorem at a state with one school of 50 and one of 600 pupils.\<close>

theorem risk_tallies_nested_witness:
  "\<exists>acc out.
      estimate_year
        \<lparr>total_schools = 2, total_enrollment = 650, bucket_under100 = 1, bucket_100_199 = 0,
         bucket_200_299 = 0, bucket_300_499 = 0, bucket_500plus = 1\<rparr> 30 2040 = Inr (acc, out) \<and>
      0 \<le> schools_severe_risk out \<and>
      schools_severe_risk out \<le> schools_elevated_risk out \<and>
      schools_elevated_risk out \<le> 2"
  using risk_tallies_nested [OF example_ccd, of 30 2040] by simp

subsection \<open>The cooper_center scenario\<close>

lemma py_round_0: "py_round 0 nd = 0"
  by (simp add: py_round_def round_half_even_def)

lemma cooper_year_growth:
  "sa_2020 \<noteq> 0 \<Longrightarrow> sa_yr \<noteq> 0 \<Longrightarrow> 1 \<le> sa_yr / sa_2020 \<Longrightarrow>
   \<exists>e. cooper_year sa_2020 (Some sa_yr) enr n_schools buckets yr = Inr (Some e) \<and>
       cooper_expected_closures e = 0 \<and> cooper_expected_closures_pct e = 0"
  by (simp add: cooper_year_def Let_def py_round_0)

text \<open>
  C10. For a state with a 2020 baseline and a projection for the year, both present and not
  zero: when the ratio \<open>sa_yr / sa_2020\<close> is at least 1, the year's entry has
  \<open>expected_closures = 0\<close> and \<open>expected_closures_pct = 0\<close> exactly, whatever the
  buckets (also in the scenario stored for 2030); when the ratio is below 1, the entry is
  built from \<open>compute_closures\<close> at the decline ratio \<open>1 - ratio\<close> and the horizon
  \<open>max (yr - 2025) 1\<close>.
\<close>

theorem cooper_growth_no_closures:
  assumes "sa_2020 \<noteq> 0" and "sa_yr \<noteq> 0"
  shows "(sa_yr / sa_2020 \<ge> 1 \<longrightarrow>
            (\<exists>e. cooper_year sa_2020 (Some sa_yr) enr n_schools buckets yr = Inr (Some e) \<and>
                 cooper_expected_closures e = 0 \<and> cooper_expected_closures_pct e = 0) \<and>
            (school_age_yr 2030 = Some sa_yr \<longrightarrow>
              (\<exists>sc e. cooper_state (Some sa_2020) school_age_yr enr n_schools buckets = Inr (Some sc) \<and>
                 map_of sc 2030 = Some e \<and>
                 cooper_expected_closures e = 0 \<and> cooper_expected_closures_pct e = 0))) \<and>
         (sa_yr / sa_2020 < 1 \<longrightarrow>
            cooper_year sa_2020 (Some sa_yr) enr n_schools buckets yr =
              (case compute_closures (1 - sa_yr / sa_2020) buckets (max (yr - 2025) 1) of
                 Inl err \<Rightarrow> Inl err
               | Inr closures \<Rightarrow>
                   Inr (Some
                     \<lparr>cooper_enrollment_decline_pct = py_round ((1 - sa_yr / sa_2020) * 100) 2,
                      cooper_projected_enrollment =
                        of_int (round_half_even (enr * (sa_yr / sa_2020))),
                      cooper_expected_closures = py_round closures 1,
                      cooper_expected_closures_pct =
                        (if n_schools > 0 then py_round (closures / of_int n_schools * 100) 1 else 0),
                      cooper_school_age_2020 = round_half_even sa_2020,
                      cooper_school_age_proj = round_half_even sa_yr\<rparr>)))"
proof (intro conjI impI)
  assume g: "1 \<le> sa_yr / sa_2020"
  show y: "\<exists>e. cooper_year sa_2020 (Some sa_yr) enr n_schools buckets yr = Inr (Some e) \<and>
                 cooper_expected_closures e = 0 \<and> cooper_expected_closures_pct e = 0"
    using assms g by (rule cooper_year_growth)
  assume "school_age_yr 2030 = Some sa_yr"
  with cooper_year_growth [OF assms g, of enr n_schools buckets 2030] assms
  show "\<exists>sc e. cooper_state (Some sa_2020) school_age_yr enr n_schools buckets = Inr (Some sc) \<and>
                 map_of sc 2030 = Some e \<and>
                 cooper_expected_closures e = 0 \<and> cooper_expected_closures_pct e = 0"
    by (auto simp: cooper_state_def)
next
  assume "sa_yr / sa_2020 < 1"
  then show "cooper_year sa_2020 (Some sa_yr) enr n_schools buckets yr =
              (case compute_closures (1 - sa_yr / sa_2020) buckets (max (yr - 2025) 1) of
                 Inl err \<Rightarrow> Inl err
               | Inr closures \<Rightarrow>
                   Inr (Some
                     \<lparr>cooper_enrollment_decline_pct = py_round ((1 - sa_yr / sa_2020) * 100) 2,
                      cooper_projected_enrollment =
                        of_int (round_half_even (enr * (sa_yr / sa_2020))),
                      cooper_expected_closures = py_round closures 1,
                      cooper_expected_closures_pct =
                        (if n_schools > 0 then py_round (closures / of_int n_schools * 100) 1 else 0),
                      cooper_school_age_2020 = round_half_even sa_2020,
                      cooper_school_age_proj = round_half_even sa_yr\<rparr>))"
    using assms by (simp add: cooper_year_def Let_def split: sum.splits)
qed

text \<open>
  The theorem at a growing state (whose buckets the closure model could not even read) and at
  a state that loses a tenth of its school-age population.
\<close>

theorem cooper_growth_no_closures_witness:
  "(\<exists>e. cooper_year 1000 (Some 1100) 5000 10 [(''mystery'', 3)] 2030 = Inr (Some e) \<and>
        cooper_expected_closures e = 0 \<and> cooper_expected_closures_pct e = 0) \<and>
   cooper_year 1000 (Some 900) 5000 10 [(''under100'', 10)] 2030 =
     Inr (Some \<lparr>cooper_enrollment_decline_pct = 10, cooper_projected_enrollment = 4500,
                cooper_expected_closures = 41 / 10, cooper_expected_closures_pct = 41,
                cooper_school_age_2020 = 1000, cooper_school_age_proj = 900\<rparr>)"
proof -
  have c: "compute_closures (1 / 10) [(''under100'', 10)] 5 = Inr (40951 / 10000)"
    by (simp add: compute_closures_def cooper_avg_enrollment_def annual_prob_cooper_def
        cooper_tiny_def cum_prob_def Let_def power_divide)
  have a: "\<exists>e. cooper_year 1000 (Some 1100) 5000 10 [(''mystery'', 3)] 2030 = Inr (Some e) \<and>
        cooper_expected_closures e = 0 \<and> cooper_expected_closures_pct e = 0"
    using cooper_growth_no_closures [of 1000 1100 5000 10 "[(''mystery'', 3)]" 2030] by simp
  have b: "cooper_year 1000 (Some 900) 5000 10 [(''under100'', 10)] 2030 =
     Inr (Some \<lparr>cooper_enrollment_decline_pct = 10, cooper_projected_enrollment = 4500,
                cooper_expected_closures = 41 / 10, cooper_expected_closures_pct = 41,
                cooper_school_age_2020 = 1000, cooper_school_age_proj = 900\<rparr>)"
    using cooper_growth_no_closures [of 1000 900 5000 10 "[(''under100'', 10)]" 2030]
    by (simp add: c py_round_def round_half_even_def)
  from a b show ?thesis ..
qed

section \<open>Risk tiers of the county-level scorer\<close>

lemma school_loop_tiers:
  "green (school_loop r ss t) + yellow (school_loop r ss t) + orange (school_loop r ss t) +
     red (school_loop r ss t) =
   green t + yellow t + orange t + red t + int (length ss)"
  by (induction ss arbitrary: t) (simp_all add: school_step_def Let_def)

lemma school_loop_nonneg:
  "0 \<le> green t \<Longrightarrow> 0 \<le> yellow t \<Longrightarrow> 0 \<le> orange t \<Longrightarrow> 0 \<le> red t \<Longrightarrow>
   0 \<le> green (school_loop r ss t) \<and> 0 \<le> yellow (school_loop r ss t) \<and>
   0 \<le> orange (school_loop r ss t) \<and> 0 \<le> red (school_loop r ss t)"
  by (induction ss arbitrary: t) (simp_all add: school_step_def Let_def)

lemma school_loop_projected:
  "projected_enrollment (school_loop r ss t) =
     projected_enrollment t + r * sum_list (map enrollment ss)"
  by (induction ss arbitrary: t) (simp_all add: school_step_def Let_def algebra_simps)

text \<open>
  C6 (as amended). In the county-level scorer, for every county, scenario and year, whatever
  the school list, the school-age populations and the multiplier (so for every combined ratio,
  inside [0,1] or not), the four tier counts that \<open>assemble_risk_data\<close> stores are
  non-negative and sum exactly to the county's school count: each school adds one to exactly
  one tier.
\<close>

theorem tier_counts_partition:
  "schools_green (county_year proj_sa base_sa tps school_list) +
   schools_yellow (county_year proj_sa base_sa tps school_list) +
   schools_orange (county_year proj_sa base_sa tps school_list) +
   schools_red (county_year proj_sa base_sa tps school_list) = num_schools school_list
   \<and> 0 \<le> schools_green (county_year proj_sa base_sa tps school_list)
   \<and> 0 \<le> schools_yellow (county_year proj_sa base_sa tps school_list)
   \<and> 0 \<le> schools_orange (county_year proj_sa base_sa tps school_list)
   \<and> 0 \<le> schools_red (county_year proj_sa base_sa tps school_list)"
  using school_loop_tiers [of "combined_ratio (demo_ratio proj_sa base_sa) tps" school_list tally0]
    school_loop_nonneg [of tally0 "combined_ratio (demo_ratio proj_sa base_sa) tps" school_list]
  by (simp add: county_year_def Let_def num_schools_def tally0_def)

text \<open>
  C6 as stated fails for the state-level scorer: \<open>estimate_closures\<close> stores no count per
  tier but two tallies, and a bucket counted as severe is counted as elevated too. For a state
  with one school of 50 and one of 600 pupils, at a decline of 30 percent in 2040, the tallies
  are 2 and 1 for 2 schools.
\<close>

theorem tier_tallies_overlap_counterexample:
  "map_of (process_ccd_schools [(''CA'', 50), (''CA'', 600), (''X'', 10)]) ''CA'' =
     Some \<lparr>total_schools = 2, total_enrollment = 650, bucket_under100 = 1, bucket_100_199 = 0,
           bucket_200_299 = 0, bucket_300_499 = 0, bucket_500plus = 1\<rparr> \<and>
   map_sum id (schools_elevated_risk \<circ> snd)
     (estimate_year
        \<lparr>total_schools = 2, total_enrollment = 650, bucket_under100 = 1, bucket_100_199 = 0,
         bucket_200_299 = 0, bucket_300_499 = 0, bucket_500plus = 1\<rparr> 30 2040) = Inr 2 \<and>
   map_sum id (schools_severe_risk \<circ> snd)
     (estimate_year
        \<lparr>total_schools = 2, total_enrollment = 650, bucket_under100 = 1, bucket_100_199 = 0,
         bucket_200_299 = 0, bucket_300_499 = 0, bucket_500plus = 1\<rparr> 30 2040) = Inr 1 \<and>
   (2 :: int) + 1 \<noteq> 2"
proof -
  have l: "closure_loop
      (avg_enrollment_of \<lparr>total_schools = 2, total_enrollment = 650, bucket_under100 = 1,
         bucket_100_199 = 0, bucket_200_299 = 0, bucket_300_499 = 0, bucket_500plus = 1\<rparr>)
      (30 / 100) (years_from_2025 2040)
      (buckets_of \<lparr>total_schools = 2, total_enrollment = 650, bucket_under100 = 1,
         bucket_100_199 = 0, bucket_200_299 = 0, bucket_300_499 = 0, bucket_500plus = 1\<rparr>)
      \<lparr>expected_closures = 0, risk_elevated = 0, risk_severe = 0\<rparr> =
    Inr \<lparr>expected_closures =
           cum_prob risk_tiny 15 + cum_prob risk_medium_decline 15,
         risk_elevated = 2, risk_severe = 1\<rparr>"
    by (simp add: avg_enrollment_of_def buckets_of_def years_from_2025_def closure_step_def
        Let_def)
  from l example_ccd show ?thesis
    by (simp add: estimate_year_def Let_def)
qed

section \<open>Streaming aggregation\<close>

lemma aggregate_of_nested_update:
  "aggregate_of (nested_update z f fc y cd) k =
     (if k = (fc, y) then Some (f (case aggregate_of cd k of None \<Rightarrow> z | Some a \<Rightarrow> a))
      else aggregate_of cd k)"
  by (cases k) (auto simp: aggregate_of_def nested_update_def Let_def update_conv'
      split: option.splits)

lemma read_loop_fatal:
  "\<exists>r\<in>set rows. fatal_row iy r \<Longrightarrow>
   \<exists>e. read_loop iy z add rows (n, cd) = Inl e \<and> (\<exists>r\<in>set rows. read_row iy r = Inl e)"
proof (induction rows arbitrary: n cd)
  case Nil
  then show ?case by simp
next
  case (Cons r rs)
  show ?case
  proof (cases "read_row iy r")
    case (Inl e)
    then show ?thesis by auto
  next
    case (Inr res)
    then have "\<not> fatal_row iy r" by (simp add: fatal_row_def)
    with Cons.prems have f: "\<exists>r\<in>set rs. fatal_row iy r" by simp
    show ?thesis
    proof (cases res)
      case None
      with Cons.IH [OF f, of "n + 1" cd] Inr show ?thesis by auto
    next
      case (Some t)
      obtain fc y g v where t: "t = (fc, y, g, v)" by (cases t)
      with Cons.IH [OF f, of "n + 1" "nested_update z (add g v) fc y cd"] Inr Some
      show ?thesis by auto
    qed
  qed
qed

lemma read_loop_ok:
  "\<not> (\<exists>r\<in>set rows. fatal_row iy r) \<Longrightarrow>
   \<exists>cd'. read_loop iy z add rows (n, cd) = Inr (n + int (length rows), cd') \<and>
         aggregate_of cd' = fold (apply_row iy z add) rows (aggregate_of cd)"
proof (induction rows arbitrary: n cd)
  case Nil
  then show ?case by simp
next
  case (Cons r rs)
  from Cons.prems have nf: "\<not> fatal_row iy r" and rest: "\<not> (\<exists>r\<in>set rs. fatal_row iy r)"
    by auto
  from nf obtain res where res: "read_row iy r = Inr res"
    by (cases "read_row iy r") (auto simp: fatal_row_def)
  show ?case
  proof (cases res)
    case None
    with res have "apply_row iy z add r (aggregate_of cd) = aggregate_of cd"
      by (simp add: apply_row_def row_contribution_def)
    with Cons.IH [OF rest, of "n + 1" cd] res None show ?thesis by auto
  next
    case (Some t)
    obtain fc y g v where t: "t = (fc, y, g, v)" by (cases t)
    have "apply_row iy z add r (aggregate_of cd) = aggregate_of (nested_update z (add g v) fc y cd)"
      using res Some t
      by (auto simp: apply_row_def row_contribution_def aggregate_of_nested_update fun_eq_iff)
    with Cons.IH [OF rest, of "n + 1" "nested_update z (add g v) fc y cd"] res Some t
    show ?thesis by auto
  qed
qed






lemma replicate_small:
  "replicate 1 x = [x]" "replicate 2 x = [x, x]" "replicate 3 x = [x, x, x]"
  by (simp_all add: numeral_2_eq_2 numeral_3_eq_3)

lemma read_csv_row:
  "read_row iy (csv_row y ''01'' ''001'' g v) =
     (if iy y then Inr (Some (ascii ''01001'', y, g, v)) else Inr None)"
  "read_row iy (csv_row y ''1'' '' 1'' g v) =
     (if iy y then Inr (Some (ascii ''01001'', y, g, v)) else Inr None)"
  "read_row iy (csv_row y ''01'' ''003'' g v) =
     (if iy y then Inr (Some (ascii ''01003'', y, g, v)) else Inr None)"
  by (simp_all add: read_row_def csv_row_def convert_def code_of_def ascii_def py_strip_def py_zfill_def
      is_space_def STATE_FIPS_def replicate_small)

lemma in_years_2025: "hauer_in_years 2025" "school_in_years 2025"
  by (simp_all add: hauer_in_years_def school_in_years_def YEARS_def SCHOOL_YEARS_def)

lemma not_in_years_2021: "\<not> hauer_in_years 2021" "\<not> school_in_years 2021"
  by (simp_all add: hauer_in_years_def school_in_years_def YEARS_def SCHOOL_YEARS_def)

lemma ascii_keys: "ascii ''01001'' \<noteq> ascii ''01003''" "ascii ''01003'' \<noteq> ascii ''01001''"
  by (simp_all add: ascii_def)


lemma float_small_sums:
  "float_add 0 5 = 5" "float_add 0 7 = 7" "float_add 0 10 = 10" "float_add 10 5 = 15"
  "float_add 5 10 = 15" "float_add 0 80 = 80" "float_add 80 20 = 100" "float_add 0 20 = 20"
  by (simp_all add: float_add_def double_round_def binary_exponent.simps pow2_def round_half_even_def Let_def)





lemma convert_isl: "isl (convert c) \<longleftrightarrow> unconvertible c"
  by (cases c) (simp_all add: convert_def unconvertible_def)

lemma code_of_isl: "isl (code_of w f) \<longleftrightarrow> f = NoneValue"
  by (cases f) (simp_all add: code_of_def)

lemma fatal_row_iff:
  "fatal_row iy r \<longleftrightarrow>
     unconvertible (YEAR r) \<or>
     (\<exists>y. convert (YEAR r) = Inr y \<and> iy y \<and>
        (STATE r = NoneValue \<or> COUNTY r = NoneValue \<or>
         known_state r \<and> (unconvertible (AGE r) \<or> unconvertible (SSP2 r))))"
proof (cases "convert (YEAR r)")
  case (Inl e)
  then have "isl (convert (YEAR r))" by simp
  then have u: "unconvertible (YEAR r)" by (simp add: convert_isl)
  with Inl show ?thesis by (simp add: fatal_row_def read_row_def)
next
  case (Inr y)
  then have "\<not> isl (convert (YEAR r))" by simp
  then have u: "\<not> unconvertible (YEAR r)" by (simp add: convert_isl)
  show ?thesis
  proof (cases "iy y")
    case False
    with Inr u show ?thesis by (simp add: fatal_row_def read_row_def)
  next
    case True
    show ?thesis
    proof (cases "code_of 2 (STATE r)")
      case (Inl e)
      then have "isl (code_of 2 (STATE r))" by simp
      then have "STATE r = NoneValue" by (simp add: code_of_isl)
      with Inl Inr True u show ?thesis by (simp add: fatal_row_def read_row_def)
    next
      case s: (Inr sf)
      then have "\<not> isl (code_of 2 (STATE r))" by simp
      then have ns: "STATE r \<noteq> NoneValue" by (simp add: code_of_isl)
      show ?thesis
      proof (cases "code_of 3 (COUNTY r)")
        case (Inl e)
        then have "isl (code_of 3 (COUNTY r))" by simp
        then have "COUNTY r = NoneValue" by (simp add: code_of_isl)
        with Inl s Inr True u show ?thesis by (simp add: fatal_row_def read_row_def)
      next
        case c: (Inr cf)
        then have "\<not> isl (code_of 3 (COUNTY r))" by simp
        then have nc: "COUNTY r \<noteq> NoneValue" by (simp add: code_of_isl)
        have k: "known_state r \<longleftrightarrow> sf \<in> set STATE_FIPS" using s by (simp add: known_state_def)
        show ?thesis
          using Inr True u s c ns nc k convert_isl [of "AGE r"] convert_isl [of "SSP2 r"]
          by (auto simp: fatal_row_def read_row_def split: sum.splits)
      qed
    qed
  qed
qed

lemma read_loop_iff:
  "(\<exists>e. read_loop iy z add rows (n, cd) = Inl e) \<longleftrightarrow> (\<exists>r\<in>set rows. fatal_row iy r)"
proof
  assume "\<exists>e. read_loop iy z add rows (n, cd) = Inl e"
  then obtain e where l: "read_loop iy z add rows (n, cd) = Inl e" ..
  show "\<exists>r\<in>set rows. fatal_row iy r"
  proof (rule ccontr)
    assume "\<not> (\<exists>r\<in>set rows. fatal_row iy r)"
    from read_loop_ok [OF this, of z add n cd] l show False by auto
  qed
next
  assume "\<exists>r\<in>set rows. fatal_row iy r"
  from read_loop_fatal [OF this, of z add n cd]
  show "\<exists>e. read_loop iy z add rows (n, cd) = Inl e" by blast
qed

lemma read_loop_error:
  assumes "read_loop iy z add rows (n, cd) = Inl e"
  shows "\<exists>r\<in>set rows. read_row iy r = Inl e"
proof -
  from assms have "\<exists>e. read_loop iy z add rows (n, cd) = Inl e" by blast
  then have "\<exists>r\<in>set rows. fatal_row iy r" by (simp only: read_loop_iff)
  from read_loop_fatal [OF this, of z add n cd] assms show ?thesis by auto
qed

lemma read_row_no_key_error: "read_row iy r \<noteq> Inl KeyError"
  by (cases "YEAR r"; cases "STATE r"; cases "COUNTY r"; cases "AGE r"; cases "SSP2 r")
     (simp_all add: read_row_def convert_def code_of_def)

text \<open>
  C8 (as amended). A row is fatal when its \<open>YEAR\<close> cannot be converted (a text that is no
  number, or \<open>None\<close>), or when its year passes the filter and either a code column is
  \<open>None\<close> or the state is known and its \<open>AGE\<close> or its value cannot be converted. A run
  over rows one of which is fatal raises the exception of a row (\<open>ValueError\<close>,
  \<open>TypeError\<close> or \<open>AttributeError\<close>) and returns no aggregates; a run without a fatal
  row returns, having counted every row it read. An age-band code is never checked: any number
  of 18 or more is added to the total and to both elder subtotals, any number below 14 to the
  total alone.
\<close>

theorem malformed_row_aborts:
  "((\<exists>e. hauer_aggregate rows = Inl e) \<longleftrightarrow> (\<exists>r\<in>set rows. fatal_row hauer_in_years r)) \<and>
   (hauer_aggregate rows = Inl e \<longrightarrow>
      e \<noteq> KeyError \<and> (\<exists>r\<in>set rows. read_row hauer_in_years r = Inl e)) \<and>
   (\<not> (\<exists>r\<in>set rows. fatal_row hauer_in_years r) \<longrightarrow>
      (\<exists>cd. hauer_aggregate rows = Inr (int (length rows), cd))) \<and>
   ((\<exists>e. process_hauer_school_age rows = Inl e) \<longleftrightarrow>
      (\<exists>r\<in>set rows. fatal_row school_in_years r)) \<and>
   (process_hauer_school_age rows = Inl e \<longrightarrow>
      e \<noteq> KeyError \<and> (\<exists>r\<in>set rows. read_row school_in_years r = Inl e)) \<and>
   (\<not> (\<exists>r\<in>set rows. fatal_row school_in_years r) \<longrightarrow>
      (\<exists>cd. process_hauer_school_age rows = Inr (int (length rows), cd))) \<and>
   (fatal_row in_years r \<longleftrightarrow>
      unconvertible (YEAR r) \<or>
      (\<exists>y. convert (YEAR r) = Inr y \<and> in_years y \<and>
         (STATE r = NoneValue \<or> COUNTY r = NoneValue \<or>
          known_state r \<and> (unconvertible (AGE r) \<or> unconvertible (SSP2 r))))) \<and>
   (18 \<le> g \<longrightarrow>
      hauer_add g v a =
        \<lparr>acc_total = float_add (acc_total a) v, acc_65plus = float_add (acc_65plus a) v,
         acc_85plus = float_add (acc_85plus a) v\<rparr>) \<and>
   (g < 14 \<longrightarrow>
      hauer_add g v a =
        \<lparr>acc_total = float_add (acc_total a) v, acc_65plus = acc_65plus a,
         acc_85plus = acc_85plus a\<rparr>)"
proof -
  have ok: "\<not> (\<exists>r\<in>set rows. fatal_row iy r) \<longrightarrow>
      (\<exists>cd. read_loop iy z add rows (0, []) = Inr (int (length rows), cd))" for iy z
    and add :: "int \<Rightarrow> real \<Rightarrow> 'b \<Rightarrow> 'b"
    using read_loop_ok [of rows iy z add 0 "[]"] by auto
  have er: "read_loop iy z add rows (0, []) = Inl e \<longrightarrow>
      e \<noteq> KeyError \<and> (\<exists>r\<in>set rows. read_row iy r = Inl e)" for iy z
    and add :: "int \<Rightarrow> real \<Rightarrow> 'b \<Rightarrow> 'b"
    using read_loop_error [of iy z add rows 0 "[]" e] read_row_no_key_error [of iy] by metis
  have h1: "18 \<le> g \<longrightarrow>
      hauer_add g v a =
        \<lparr>acc_total = float_add (acc_total a) v, acc_65plus = float_add (acc_65plus a) v,
         acc_85plus = float_add (acc_85plus a) v\<rparr>"
    by (simp add: hauer_add_def Let_def)
  have h2: "g < 14 \<longrightarrow>
      hauer_add g v a =
        \<lparr>acc_total = float_add (acc_total a) v, acc_65plus = acc_65plus a,
         acc_85plus = acc_85plus a\<rparr>"
    by (simp add: hauer_add_def Let_def)
  show ?thesis
    unfolding hauer_aggregate_def process_hauer_school_age_def
    by (intro conjI read_loop_iff ok er fatal_row_iff h1 h2)
qed

lemma read_bad_rows:
  "read_row iy ((csv_row 2025 ''01'' ''001'' 3 5)\<lparr>YEAR := Unparseable\<rparr>) = Inl ValueError"
  "read_row iy ((csv_row 2025 ''01'' ''001'' 3 5)\<lparr>AGE := Unparseable\<rparr>) =
     (if iy 2025 then Inl ValueError else Inr None)"
  "read_row iy ((csv_row 2025 ''01'' ''001'' 3 5)\<lparr>COUNTY := NoneValue, AGE := NoneCell,
      SSP2 := NoneCell\<rparr>) = (if iy 2025 then Inl AttributeError else Inr None)"
  by (simp_all add: read_row_def csv_row_def convert_def code_of_def ascii_def py_strip_def py_zfill_def
      is_space_def STATE_FIPS_def replicate_small)

text \<open>The theorem at a run with a fatal first row, and at a run without one.\<close>

theorem malformed_row_aborts_witness:
  "(\<exists>e. hauer_aggregate
      [(csv_row 2025 ''01'' ''001'' 3 5)\<lparr>YEAR := Unparseable\<rparr>,
       csv_row 2025 ''01'' ''001'' 3 5] = Inl e) \<and>
   (\<exists>cd. process_hauer_school_age [csv_row 2025 ''01'' ''001'' 3 5] = Inr (1, cd))"
proof -
  have f: "fatal_row hauer_in_years ((csv_row 2025 ''01'' ''001'' 3 5)\<lparr>YEAR := Unparseable\<rparr>)"
    by (simp add: fatal_row_def read_bad_rows)
  have g: "\<not> fatal_row school_in_years (csv_row 2025 ''01'' ''001'' 3 5)"
    by (simp add: fatal_row_def read_csv_row)
  from f have "\<exists>e. hauer_aggregate
      [(csv_row 2025 ''01'' ''001'' 3 5)\<lparr>YEAR := Unparseable\<rparr>,
       csv_row 2025 ''01'' ''001'' 3 5] = Inl e"
    using malformed_row_aborts
      [of "[(csv_row 2025 ''01'' ''001'' 3 5)\<lparr>YEAR := Unparseable\<rparr>,
            csv_row 2025 ''01'' ''001'' 3 5]"]
    by simp
  moreover from g have "\<exists>cd. process_hauer_school_age [csv_row 2025 ''01'' ''001'' 3 5] =
      Inr (1, cd)"
    using malformed_row_aborts [of "[csv_row 2025 ''01'' ''001'' 3 5]"] by simp
  ultimately show ?thesis ..
qed

text \<open>
  C8 as stated fails: a row whose \<open>YEAR\<close> (or, in scope, whose \<open>AGE\<close>) is no number
  ends the run with \<open>ValueError\<close> and a short row ends it with \<open>AttributeError\<close>,
  although the row after it would aggregate on its own; and the unknown age-band code 99 is
  not skipped but counted as 85 and over.
\<close>

theorem malformed_row_fatal_counterexample:
  "hauer_aggregate
     [(csv_row 2025 ''01'' ''001'' 3 5)\<lparr>YEAR := Unparseable\<rparr>,
      csv_row 2025 ''01'' ''001'' 3 5] = Inl ValueError \<and>
   process_hauer_school_age
     [(csv_row 2025 ''01'' ''001'' 3 5)\<lparr>AGE := Unparseable\<rparr>,
      csv_row 2025 ''01'' ''001'' 3 5] = Inl ValueError \<and>
   hauer_aggregate
     [(csv_row 2025 ''01'' ''001'' 3 5)\<lparr>COUNTY := NoneValue, AGE := NoneCell,
        SSP2 := NoneCell\<rparr>,
      csv_row 2025 ''01'' ''001'' 3 5] = Inl AttributeError \<and>
   hauer_aggregate [csv_row 2025 ''01'' ''001'' 3 5] =
     Inr (1, [(ascii ''01001'', [(2025, \<lparr>acc_total = 5, acc_65plus = 0, acc_85plus = 0\<rparr>)])]) \<and>
   hauer_aggregate [csv_row 2025 ''01'' ''001'' 99 5] =
     Inr (1, [(ascii ''01001'', [(2025, \<lparr>acc_total = 5, acc_65plus = 5, acc_85plus = 5\<rparr>)])])"
proof -
  have a: "hauer_aggregate
     [(csv_row 2025 ''01'' ''001'' 3 5)\<lparr>YEAR := Unparseable\<rparr>,
      csv_row 2025 ''01'' ''001'' 3 5] = Inl ValueError"
    by (simp add: hauer_aggregate_def read_bad_rows)
  have b: "process_hauer_school_age
     [(csv_row 2025 ''01'' ''001'' 3 5)\<lparr>AGE := Unparseable\<rparr>,
      csv_row 2025 ''01'' ''001'' 3 5] = Inl ValueError"
    by (simp add: process_hauer_school_age_def read_bad_rows in_years_2025)
  have c: "hauer_aggregate
     [(csv_row 2025 ''01'' ''001'' 3 5)\<lparr>COUNTY := NoneValue, AGE := NoneCell,
        SSP2 := NoneCell\<rparr>,
      csv_row 2025 ''01'' ''001'' 3 5] = Inl AttributeError"
    by (simp add: hauer_aggregate_def read_bad_rows in_years_2025)
  have d: "hauer_aggregate [csv_row 2025 ''01'' ''001'' 3 5] =
     Inr (1, [(ascii ''01001'', [(2025, \<lparr>acc_total = 5, acc_65plus = 0, acc_85plus = 0\<rparr>)])])"
    apply (simp add: hauer_aggregate_def read_csv_row in_years_2025)
    apply (simp add: nested_update_def)
    apply (simp add: hauer_add_def agg0_def Let_def float_small_sums)
    done
  have e: "hauer_aggregate [csv_row 2025 ''01'' ''001'' 99 5] =
     Inr (1, [(ascii ''01001'', [(2025, \<lparr>acc_total = 5, acc_65plus = 5, acc_85plus = 5\<rparr>)])])"
    apply (simp add: hauer_aggregate_def read_csv_row in_years_2025)
    apply (simp add: nested_update_def)
    apply (simp add: hauer_add_def agg0_def Let_def float_small_sums)
    done
  from a b c d e show ?thesis by blast
qed

section \<open>Temporal resampling\<close>

lemma sorted_le_last: "sorted xs \<Longrightarrow> (x::int) \<in> set xs \<Longrightarrow> x \<le> last xs"
  by (induction xs) auto

lemma sorted_hd_le: "sorted xs \<Longrightarrow> (x::int) \<in> set xs \<Longrightarrow> hd xs \<le> x"
  by (cases xs) auto

lemma last_filter_le:
  fixes y1 :: int
  assumes "sorted xs" "y1 \<in> set xs" "y1 \<le> t" "\<forall>y\<in>set xs. y \<le> t \<longrightarrow> y \<le> y1"
  shows "filter (\<lambda>y. y \<le> t) xs \<noteq> [] \<and> last (filter (\<lambda>y. y \<le> t) xs) = y1"
proof -
  let ?ys = "filter (\<lambda>y. y \<le> t) xs"
  have m: "y1 \<in> set ?ys" using assms by simp
  then have ne: "?ys \<noteq> []" by (metis empty_iff empty_set)
  have s: "sorted ?ys" using assms(1) by (rule sorted_wrt_filter)
  have "last ?ys \<in> set ?ys" using ne by (rule last_in_set)
  then have a: "last ?ys \<le> y1" using assms(4) by simp
  have b: "y1 \<le> last ?ys" using s m by (rule sorted_le_last)
  from a b ne show ?thesis by simp
qed

lemma hd_filter_ge:
  fixes y2 :: int
  assumes "sorted xs" "y2 \<in> set xs" "t \<le> y2" "\<forall>y\<in>set xs. t \<le> y \<longrightarrow> y2 \<le> y"
  shows "filter (\<lambda>y. y \<ge> t) xs \<noteq> [] \<and> hd (filter (\<lambda>y. y \<ge> t) xs) = y2"
proof -
  let ?ys = "filter (\<lambda>y. y \<ge> t) xs"
  have m: "y2 \<in> set ?ys" using assms by simp
  then have ne: "?ys \<noteq> []" by (metis empty_iff empty_set)
  have s: "sorted ?ys" using assms(1) by (rule sorted_wrt_filter)
  have "hd ?ys \<in> set ?ys" using ne by (rule hd_in_set)
  then have a: "y2 \<le> hd ?ys" using assms(4) by simp
  have b: "hd ?ys \<le> y2" using s m by (rule sorted_hd_le)
  from a b ne show ?thesis by simp
qed

lemma filter_empty_iff: "filter P xs = [] \<longleftrightarrow> (\<forall>x\<in>set xs. \<not> P x)"
  by (simp add: filter_empty_conv)

lemma resample_known:
  "map_of yd t = Some d \<Longrightarrow> hauer_resample yd t = Inr (Some d)"
  by (simp add: hauer_resample_def)

lemma resample_between:
  assumes n: "map_of yd t = None"
    and d1: "map_of yd y1 = Some d1" and d2: "map_of yd y2 = Some d2"
    and le: "y1 < t" "t < y2"
    and nearest: "\<forall>y\<in>fst ` set yd. y \<le> y1 \<or> y2 \<le> y"
  shows "hauer_resample yd t =
           Inr (Some (interpolate (of_int (t - y1) / of_int (y2 - y1)) d1 d2))"
proof -
  let ?av = "sort (map fst yd)"
  have k1: "y1 \<in> set ?av" using d1 by (auto dest: map_of_SomeD intro: rev_image_eqI)
  have k2: "y2 \<in> set ?av" using d2 by (auto dest: map_of_SomeD intro: rev_image_eqI)
  have n1: "\<forall>y\<in>set ?av. y \<le> t \<longrightarrow> y \<le> y1" using nearest le by auto
  have n2: "\<forall>y\<in>set ?av. t \<le> y \<longrightarrow> y2 \<le> y" using nearest le by auto
  have b: "filter (\<lambda>y. y \<le> t) ?av \<noteq> [] \<and> last (filter (\<lambda>y. y \<le> t) ?av) = y1"
    using last_filter_le [of ?av y1 t] k1 n1 le by simp
  have a: "filter (\<lambda>y. y \<ge> t) ?av \<noteq> [] \<and> hd (filter (\<lambda>y. y \<ge> t) ?av) = y2"
    using hd_filter_ge [of ?av y2 t] k2 n2 le by simp
  from le have "y1 \<noteq> y2" by simp
  with n a b d1 d2 show ?thesis
    by (simp add: hauer_resample_def Let_def dict_index_def)
qed

lemma resample_after_last:
  assumes n: "map_of yd t = None" and d: "map_of yd ymax = Some d"
    and lt: "ymax < t" and mx: "\<forall>y\<in>fst ` set yd. y \<le> ymax"
  shows "hauer_resample yd t = Inr (Some d)"
proof -
  let ?av = "sort (map fst yd)"
  have k: "ymax \<in> set ?av" using d by (auto dest: map_of_SomeD intro: rev_image_eqI)
  have b: "filter (\<lambda>y. y \<le> t) ?av \<noteq> [] \<and> last (filter (\<lambda>y. y \<le> t) ?av) = ymax"
    using last_filter_le [of ?av ymax t] k mx lt by simp
  have a: "filter (\<lambda>y. y \<ge> t) ?av = []"
    using mx lt by (auto simp: filter_empty_iff)
  from n a b d show ?thesis
    by (simp add: hauer_resample_def Let_def dict_index_def)
qed

lemma resample_before_first:
  assumes n: "map_of yd t = None" and d: "map_of yd ymin = Some d"
    and lt: "t < ymin" and mn: "\<forall>y\<in>fst ` set yd. ymin \<le> y"
  shows "hauer_resample yd t = Inr (Some d)"
proof -
  let ?av = "sort (map fst yd)"
  have k: "ymin \<in> set ?av" using d by (auto dest: map_of_SomeD intro: rev_image_eqI)
  have a: "filter (\<lambda>y. y \<ge> t) ?av \<noteq> [] \<and> hd (filter (\<lambda>y. y \<ge> t) ?av) = ymin"
    using hd_filter_ge [of ?av ymin t] k mn lt by simp
  have b: "filter (\<lambda>y. y \<le> t) ?av = []"
    using mn lt by (auto simp: filter_empty_iff)
  from n a b d show ?thesis
    by (simp add: hauer_resample_def Let_def dict_index_def)
qed

lemma resample_single: "hauer_resample [(y, d)] t = Inr (Some d)"
  by (simp add: hauer_resample_def Let_def dict_index_def)

lemma not_key: "t \<notin> fst ` set yd \<Longrightarrow> map_of yd t = None"
  by (simp add: map_of_eq_None_iff)

text \<open>
  C5. The value that \<open>process_hauer\<close> resolves for a target year \<open>t\<close> from a county's
  series: the known value when \<open>t\<close> is a known year; for \<open>t\<close> strictly between the
  nearest known year \<open>y1\<close> below it and the nearest known year \<open>y2\<close> above it,
  \<open>v1 + (t - y1) / (y2 - y1) * (v2 - v1)\<close> in each of the three sums (120 at 2027 between
  100 in 2025 and 150 in 2030); the value of the last known year when \<open>t\<close> lies after all
  known years and that of the first when it lies before them; hence the single value of a
  series with one known year, whatever \<open>t\<close>.
\<close>

theorem resample_bounded:
  "(map_of yd t = Some d \<longrightarrow> hauer_resample yd t = Inr (Some d)) \<and>
   (map_of yd y1 = Some d1 \<and> map_of yd y2 = Some d2 \<and> y1 < t \<and> t < y2 \<and>
    (\<forall>y\<in>fst ` set yd. y \<le> y1 \<or> y2 \<le> y) \<longrightarrow>
      hauer_resample yd t =
        Inr (Some
          \<lparr>acc_total =
             acc_total d1 + of_int (t - y1) / of_int (y2 - y1) * (acc_total d2 - acc_total d1),
           acc_65plus =
             acc_65plus d1 + of_int (t - y1) / of_int (y2 - y1) * (acc_65plus d2 - acc_65plus d1),
           acc_85plus =
             acc_85plus d1 +
               of_int (t - y1) / of_int (y2 - y1) * (acc_85plus d2 - acc_85plus d1)\<rparr>)) \<and>
   (map_of yd ymax = Some d \<and> ymax < t \<and> (\<forall>y\<in>fst ` set yd. y \<le> ymax) \<longrightarrow>
      hauer_resample yd t = Inr (Some d)) \<and>
   (map_of yd ymin = Some d \<and> t < ymin \<and> (\<forall>y\<in>fst ` set yd. ymin \<le> y) \<longrightarrow>
      hauer_resample yd t = Inr (Some d)) \<and>
   hauer_resample [(y0, d)] t = Inr (Some d) \<and>
   hauer_resample
     [(2025, \<lparr>acc_total = 100, acc_65plus = p, acc_85plus = q\<rparr>),
      (2030, \<lparr>acc_total = 150, acc_65plus = p, acc_85plus = q\<rparr>)] 2027 =
     Inr (Some \<lparr>acc_total = 120, acc_65plus = p, acc_85plus = q\<rparr>)"
proof (intro conjI impI)
  assume "map_of yd t = Some d"
  then show "hauer_resample yd t = Inr (Some d)" by (rule resample_known)
next
  assume a: "map_of yd y1 = Some d1 \<and> map_of yd y2 = Some d2 \<and> y1 < t \<and> t < y2 \<and>
    (\<forall>y\<in>fst ` set yd. y \<le> y1 \<or> y2 \<le> y)"
  then have "t \<notin> fst ` set yd" by auto
  then have "map_of yd t = None" by (rule not_key)
  with a have "hauer_resample yd t =
           Inr (Some (interpolate (of_int (t - y1) / of_int (y2 - y1)) d1 d2))"
    by (intro resample_between) simp_all
  then show "hauer_resample yd t =
        Inr (Some
          \<lparr>acc_total =
             acc_total d1 + of_int (t - y1) / of_int (y2 - y1) * (acc_total d2 - acc_total d1),
           acc_65plus =
             acc_65plus d1 + of_int (t - y1) / of_int (y2 - y1) * (acc_65plus d2 - acc_65plus d1),
           acc_85plus =
             acc_85plus d1 +
               of_int (t - y1) / of_int (y2 - y1) * (acc_85plus d2 - acc_85plus d1)\<rparr>)"
    by (simp add: interpolate_def)
next
  assume a: "map_of yd ymax = Some d \<and> ymax < t \<and> (\<forall>y\<in>fst ` set yd. y \<le> ymax)"
  then have "t \<notin> fst ` set yd" by auto
  then have "map_of yd t = None" by (rule not_key)
  with a show "hauer_resample yd t = Inr (Some d)"
    by (intro resample_after_last [of yd t ymax]) simp_all
next
  assume a: "map_of yd ymin = Some d \<and> t < ymin \<and> (\<forall>y\<in>fst ` set yd. ymin \<le> y)"
  then have "t \<notin> fst ` set yd" by auto
  then have "map_of yd t = None" by (rule not_key)
  with a show "hauer_resample yd t = Inr (Some d)"
    by (intro resample_before_first [of yd t ymin]) simp_all
next
  show "hauer_resample [(y0, d)] t = Inr (Some d)" by (rule resample_single)
next
  have "hauer_resample
     [(2025, \<lparr>acc_total = 100, acc_65plus = p, acc_85plus = q\<rparr>),
      (2030, \<lparr>acc_total = 150, acc_65plus = p, acc_85plus = q\<rparr>)] 2027 =
     Inr (Some (interpolate (of_int (2027 - 2025) / of_int (2030 - 2025))
        \<lparr>acc_total = 100, acc_65plus = p, acc_85plus = q\<rparr>
        \<lparr>acc_total = 150, acc_65plus = p, acc_85plus = q\<rparr>))"
    by (rule resample_between) simp_all
  then show "hauer_resample
     [(2025, \<lparr>acc_total = 100, acc_65plus = p, acc_85plus = q\<rparr>),
      (2030, \<lparr>acc_total = 150, acc_65plus = p, acc_85plus = q\<rparr>)] 2027 =
     Inr (Some \<lparr>acc_total = 120, acc_65plus = p, acc_85plus = q\<rparr>)"
    by (simp add: interpolate_def)
qed

text \<open>The theorem at a series known in 2025 and 2030: inside, after, before and at a known year.\<close>

theorem resample_bounded_witness:
  "hauer_resample
     [(2030, \<lparr>acc_total = 150, acc_65plus = 30, acc_85plus = 6\<rparr>),
      (2025, \<lparr>acc_total = 100, acc_65plus = 10, acc_85plus = 1\<rparr>)] 2026 =
     Inr (Some \<lparr>acc_total = 110, acc_65plus = 14, acc_85plus = 2\<rparr>) \<and>
   hauer_resample
     [(2030, \<lparr>acc_total = 150, acc_65plus = 30, acc_85plus = 6\<rparr>),
      (2025, \<lparr>acc_total = 100, acc_65plus = 10, acc_85plus = 1\<rparr>)] 2050 =
     Inr (Some \<lparr>acc_total = 150, acc_65plus = 30, acc_85plus = 6\<rparr>) \<and>
   hauer_resample
     [(2030, \<lparr>acc_total = 150, acc_65plus = 30, acc_85plus = 6\<rparr>),
      (2025, \<lparr>acc_total = 100, acc_65plus = 10, acc_85plus = 1\<rparr>)] 2020 =
     Inr (Some \<lparr>acc_total = 100, acc_65plus = 10, acc_85plus = 1\<rparr>) \<and>
   hauer_resample
     [(2030, \<lparr>acc_total = 150, acc_65plus = 30, acc_85plus = 6\<rparr>),
      (2025, \<lparr>acc_total = 100, acc_65plus = 10, acc_85plus = 1\<rparr>)] 2025 =
     Inr (Some \<lparr>acc_total = 100, acc_65plus = 10, acc_85plus = 1\<rparr>)"
proof -
  let ?yd = "[(2030, \<lparr>acc_total = 150, acc_65plus = 30, acc_85plus = 6\<rparr>),
      (2025, \<lparr>acc_total = 100, acc_65plus = 10, acc_85plus = 1\<rparr>)]"
  let ?d1 = "\<lparr>acc_total = 100, acc_65plus = 10, acc_85plus = 1\<rparr>"
  let ?d2 = "\<lparr>acc_total = 150, acc_65plus = 30, acc_85plus = 6\<rparr>"
  have a: "hauer_resample ?yd 2026 =
     Inr (Some \<lparr>acc_total = 110, acc_65plus = 14, acc_85plus = 2\<rparr>)"
    using resample_bounded [of ?yd 2026 ?d1 2025 ?d1 2030 ?d2] by simp
  have b: "hauer_resample ?yd 2050 = Inr (Some ?d2)"
    using resample_bounded [of ?yd 2050 ?d2 2025 ?d1 2030 ?d2 2030] by simp
  have c: "hauer_resample ?yd 2020 = Inr (Some ?d1)"
    using resample_bounded [of ?yd 2020 ?d1 2025 ?d1 2030 ?d2 2030 2025] by simp
  have d: "hauer_resample ?yd 2025 = Inr (Some ?d1)"
    using resample_bounded [of ?yd 2025 ?d1] by simp
  from a b c d show ?thesis by blast
qed

lemma resample_empty: "hauer_resample [] t = Inr None"
  by (simp add: hauer_resample_def)

lemma target_loop_empty: "hauer_target_loop [] targets years_out = Inr years_out"
  by (induction targets) (simp_all add: hauer_resample_def)

lemma proj_sa_no_years:
  "map_of hauer_data fc = None \<or> map_of hauer_data fc = Some [] \<Longrightarrow>
   hauer_proj_sa hauer_data fc yr baseline = Inr baseline \<and>
   hauer_base_sa hauer_data fc baseline = baseline"
  by (auto simp: hauer_proj_sa_def hauer_base_sa_def)

text \<open>
  C7 (as amended). A series without a known year raises nothing. In \<open>process_hauer\<close> no
  target year resolves, the county's \<open>years\<close> stay empty and the county is left out of the
  output, the loop going on with the counties that follow. In \<open>assemble_risk_data\<close> a county
  that is missing from \<open>hauer_data\<close>, or present with no year, takes the ACS baseline as
  projection and as base, so its demographic ratio is 1 and its entry is produced as for any
  other county.
\<close>

theorem empty_series_skipped:
  "hauer_resample [] t = Inr None \<and>
   hauer_target_loop [] targets [] = Inr [] \<and>
   hauer_output_loop ((fc, []) # rest) output = hauer_output_loop rest output \<and>
   (map_of hauer_data fc = None \<or> map_of hauer_data fc = Some [] \<longrightarrow>
      hauer_proj_sa hauer_data fc yr baseline = Inr baseline \<and>
      hauer_base_sa hauer_data fc baseline = baseline \<and>
      demo_ratio baseline baseline = 1 \<and>
      county_year_hauer hauer_data tps fc scenario yr baseline schools =
        (case tps_mult tps scenario yr of
           Inl e \<Rightarrow> Inl e
         | Inr m \<Rightarrow> Inr (county_year baseline baseline m schools)))"
proof (intro conjI impI)
  show "hauer_resample [] t = Inr None" by (simp add: hauer_resample_def)
  show "hauer_target_loop [] targets [] = Inr []" by (rule target_loop_empty)
  show "hauer_output_loop ((fc, []) # rest) output = hauer_output_loop rest output"
    by (simp add: target_loop_empty)
next
  assume a: "map_of hauer_data fc = None \<or> map_of hauer_data fc = Some []"
  from proj_sa_no_years [OF a]
  show "hauer_proj_sa hauer_data fc yr baseline = Inr baseline"
    and "hauer_base_sa hauer_data fc baseline = baseline"
    by simp_all
  show "demo_ratio baseline baseline = 1" by (simp add: demo_ratio_def)
  from proj_sa_no_years [OF a, of yr baseline]
  show "county_year_hauer hauer_data tps fc scenario yr baseline schools =
        (case tps_mult tps scenario yr of
           Inl e \<Rightarrow> Inl e
         | Inr m \<Rightarrow> Inr (county_year baseline baseline m schools))"
    by (simp add: county_year_hauer_def split: sum.splits)
qed

text \<open>
  The theorem at a county with one school that \<open>hauer_data\<close> does not have, under a
  multiplier of 0.75.
\<close>

theorem empty_series_skipped_witness:
  "county_year_hauer
     [(ascii ''01003'', [(2030, \<lparr>school_age = 900, sa_total = 4000\<rparr>)])]
     [(''pre_hold'', [(2030, 3 / 4)]), (''pre_trend'', [(2030, 3 / 4)]),
      (''post_hold'', [(2030, 3 / 4)]), (''post_trend'', [(2030, 3 / 4)])]
     (ascii ''01001'') ''pre_hold'' 2030 500 [\<lparr>fips = ascii ''01001'', enrollment = 300\<rparr>] =
   Inr (county_year 500 500 (3 / 4) [\<lparr>fips = ascii ''01001'', enrollment = 300\<rparr>])"
proof -
  have n: "map_of [(ascii ''01003'', [(2030 :: int, \<lparr>school_age = 900, sa_total = 4000\<rparr>)])]
             (ascii ''01001'') = None"
    by (simp add: ascii_keys)
  have t: "tps_mult [(''pre_hold'', [(2030, 3 / 4)]), (''pre_trend'', [(2030, 3 / 4)]),
      (''post_hold'', [(2030, 3 / 4)]), (''post_trend'', [(2030, 3 / 4)])] ''pre_hold'' 2030 =
      Inr (3 / 4)"
    by (simp add: tps_mult_def)
  from n empty_series_skipped
    [where hauer_data = "[(ascii ''01003'', [(2030, \<lparr>school_age = 900, sa_total = 4000\<rparr>)])]"
       and fc = "ascii ''01001''" and yr = 2030 and baseline = 500 and scenario = "''pre_hold''"
       and tps = "[(''pre_hold'', [(2030, 3 / 4)]), (''pre_trend'', [(2030, 3 / 4)]),
                   (''post_hold'', [(2030, 3 / 4)]), (''post_trend'', [(2030, 3 / 4)])]"
       and schools = "[\<lparr>fips = ascii ''01001'', enrollment = 300\<rparr>]"]
  show ?thesis by (simp add: t ascii_keys)
qed

lemma example_hauer_rows:
  "hauer_aggregate
     [csv_row 2021 ''01'' ''001'' 3 50, csv_row 2025 ''01'' ''003'' 3 80,
      csv_row 2025 ''01'' ''003'' 15 20] =
   Inr (3, [(ascii ''01003'', [(2025, \<lparr>acc_total = 100, acc_65plus = 20, acc_85plus = 0\<rparr>)])])"
  apply (simp add: hauer_aggregate_def read_csv_row in_years_2025 not_in_years_2021)
  apply (simp add: nested_update_def)
  apply (simp add: hauer_add_def agg0_def Let_def float_small_sums)
  done

text \<open>
  C7 as stated fails. County 01001 has a row for 2021 only, a year the reader drops, so it has
  no known year: \<open>process_hauer\<close> raises nothing, returns the entries of county 01003
  (its one known year held flat over the six target years) and has no entry and no report
  for 01001. \<open>assemble_risk_data\<close> finds no series for county 01001 and still stores its
  entry, at the decline of the multiplier alone (25 percent: the orange tier).
\<close>

theorem empty_series_no_error_counterexample:
  "process_hauer
     [csv_row 2021 ''01'' ''001'' 3 50, csv_row 2025 ''01'' ''003'' 3 80,
      csv_row 2025 ''01'' ''003'' 15 20] =
   Inr [(ascii ''01003'',
         [(2025, \<lparr>pct_65plus = 20, pct_85plus = 0, pop_total = 100, pop_65plus = 20,
                  pop_85plus = 0\<rparr>),
          (2030, \<lparr>pct_65plus = 20, pct_85plus = 0, pop_total = 100, pop_65plus = 20,
                  pop_85plus = 0\<rparr>),
          (2035, \<lparr>pct_65plus = 20, pct_85plus = 0, pop_total = 100, pop_65plus = 20,
                  pop_85plus = 0\<rparr>),
          (2040, \<lparr>pct_65plus = 20, pct_85plus = 0, pop_total = 100, pop_65plus = 20,
                  pop_85plus = 0\<rparr>),
          (2045, \<lparr>pct_65plus = 20, pct_85plus = 0, pop_total = 100, pop_65plus = 20,
                  pop_85plus = 0\<rparr>),
          (2050, \<lparr>pct_65plus = 20, pct_85plus = 0, pop_total = 100, pop_65plus = 20,
                  pop_85plus = 0\<rparr>)])] \<and>
   county_year_hauer
     [(ascii ''01003'', [(2030, \<lparr>school_age = 900, sa_total = 4000\<rparr>)])]
     [(''pre_hold'', [(2030, 3 / 4)]), (''pre_trend'', [(2030, 3 / 4)]),
      (''post_hold'', [(2030, 3 / 4)]), (''post_trend'', [(2030, 3 / 4)])]
     (ascii ''01001'') ''pre_hold'' 2030 500 [\<lparr>fips = ascii ''01001'', enrollment = 300\<rparr>] =
   Inr \<lparr>pct_decline = 25, schools_green = 0, schools_yellow = 0, schools_orange = 1,
        schools_red = 0, schools_below_threshold = 0, projected_enrollment_out = 225\<rparr>"
proof -
  have e: "hauer_year_entry \<lparr>acc_total = 100, acc_65plus = 20, acc_85plus = 0\<rparr> =
      Some \<lparr>pct_65plus = 20, pct_85plus = 0, pop_total = 100, pop_65plus = 20, pop_85plus = 0\<rparr>"
    by (simp add: hauer_year_entry_def Let_def py_round_def round_half_even_def)
  have r: "hauer_resample [(2025, \<lparr>acc_total = 100, acc_65plus = 20, acc_85plus = 0\<rparr>)] t =
      Inr (Some \<lparr>acc_total = 100, acc_65plus = 20, acc_85plus = 0\<rparr>)" for t
    by (rule resample_single)
  have a: "process_hauer
     [csv_row 2021 ''01'' ''001'' 3 50, csv_row 2025 ''01'' ''003'' 3 80,
      csv_row 2025 ''01'' ''003'' 15 20] =
   Inr [(ascii ''01003'',
         [(2025, \<lparr>pct_65plus = 20, pct_85plus = 0, pop_total = 100, pop_65plus = 20,
                  pop_85plus = 0\<rparr>),
          (2030, \<lparr>pct_65plus = 20, pct_85plus = 0, pop_total = 100, pop_65plus = 20,
                  pop_85plus = 0\<rparr>),
          (2035, \<lparr>pct_65plus = 20, pct_85plus = 0, pop_total = 100, pop_65plus = 20,
                  pop_85plus = 0\<rparr>),
          (2040, \<lparr>pct_65plus = 20, pct_85plus = 0, pop_total = 100, pop_65plus = 20,
                  pop_85plus = 0\<rparr>),
          (2045, \<lparr>pct_65plus = 20, pct_85plus = 0, pop_total = 100, pop_65plus = 20,
                  pop_85plus = 0\<rparr>),
          (2050, \<lparr>pct_65plus = 20, pct_85plus = 0, pop_total = 100, pop_65plus = 20,
                  pop_85plus = 0\<rparr>)])]"
    by (simp add: process_hauer_def example_hauer_rows TARGET_YEARS_def r e)
  have n: "map_of [(ascii ''01003'', [(2030 :: int, \<lparr>school_age = 900, sa_total = 4000\<rparr>)])]
             (ascii ''01001'') = None"
    by (simp add: ascii_keys)
  have b: "county_year_hauer
     [(ascii ''01003'', [(2030, \<lparr>school_age = 900, sa_total = 4000\<rparr>)])]
     [(''pre_hold'', [(2030, 3 / 4)]), (''pre_trend'', [(2030, 3 / 4)]),
      (''post_hold'', [(2030, 3 / 4)]), (''post_trend'', [(2030, 3 / 4)])]
     (ascii ''01001'') ''pre_hold'' 2030 500 [\<lparr>fips = ascii ''01001'', enrollment = 300\<rparr>] =
   Inr \<lparr>pct_decline = 25, schools_green = 0, schools_yellow = 0, schools_orange = 1,
        schools_red = 0, schools_below_threshold = 0, projected_enrollment_out = 225\<rparr>"
    by (simp add: county_year_hauer_def hauer_proj_sa_def hauer_base_sa_def ascii_keys tps_mult_def
        county_year_def demo_ratio_def combined_ratio_def school_step_def decline_pct_def
        tally0_def Let_def py_round_def round_half_even_def)
  from a b show ?thesis ..
qed

section \<open>Scenario composition\<close>

text \<open>
  C3. The composite of a demographic decline ratio \<open>a\<close> and a participation-share decline
  ratio \<open>b\<close> is formed on the surviving fractions \<open>1 - a\<close> and \<open>1 - b\<close>, which
  \<open>assemble_risk_data\<close> multiplies: the composite decline ratio (the decline percentage of
  the school loop over 100) is \<open>1 - (1 - a) * (1 - b)\<close>, and the enrollment the loop
  projects is the current enrollment times the product of the two surviving fractions. Ratio 0
  is an identity of the composition and ratio 1 (total loss) is absorbing.
\<close>

theorem composite_ratio_survival_product:
  "combined_ratio sa sb = sa * sb
   \<and> decline_pct (combined_ratio (1 - a) (1 - b)) / 100 = 1 - (1 - a) * (1 - b)
   \<and> projected_enrollment (school_loop (combined_ratio (1 - a) (1 - b)) school_list tally0) =
       (1 - a) * (1 - b) * sum_list (map enrollment school_list)
   \<and> decline_pct (combined_ratio (1 - 0) (1 - r)) / 100 = r
   \<and> decline_pct (combined_ratio (1 - r) (1 - 0)) / 100 = r
   \<and> decline_pct (combined_ratio (1 - 1) (1 - r)) / 100 = 1
   \<and> decline_pct (combined_ratio (1 - r) (1 - 1)) / 100 = 1"
  by (simp add: combined_ratio_def decline_pct_def school_loop_projected tally0_def)

end
